theory Spec2Isabelle
  imports Main "HOL-Library.Word"
begin

section \<open>Errors\<close>

text \<open>
  Go's \<^verbatim>\<open>os.Error\<close> values of the datastore package. An \<^verbatim>\<open>os.Error\<close> variable is an
  \<open>error option\<close> (\<open>None\<close> is \<^verbatim>\<open>nil\<close>). \<^verbatim>\<open>ErrMulti\<close> is a slice of \<^verbatim>\<open>os.Error\<close>, so its
  slots may be \<^verbatim>\<open>nil\<close>. The two \<^verbatim>\<open>fmt.Errorf\<close> errors of \<^verbatim>\<open>queryFilter.toProto\<close> keep the
  arguments their message quotes with \<^verbatim>\<open>%q\<close>. A panic is a value as well.
\<close>

datatype error =
    ErrorString string
  | ErrInvalidKey
  | Errorf_invalid_operator string string
  | Errorf_bad_value_type string
  | ErrMulti "error option list"
  | NilDereference
  | Panic error

section \<open>Strings\<close>

text \<open>
  A Go string is a sequence of bytes, as \<open>string\<close> is. \<^verbatim>\<open>strings.TrimRight\<close> removes
  the trailing characters that occur in the cutset; both cutsets of this package
  (\<^verbatim>\<open>"="\<close> and \<^verbatim>\<open>" ><="\<close>) are ASCII, where bytes and characters coincide.
\<close>

definition TrimRight :: "string \<Rightarrow> string \<Rightarrow> string" where
  "TrimRight s cutset = rev (dropWhile (\<lambda>c. c \<in> set cutset) (rev s))"

definition Repeat :: "string \<Rightarrow> nat \<Rightarrow> string" where
  "Repeat s count = concat (replicate count s)"

definition HasPrefix :: "string \<Rightarrow> string \<Rightarrow> bool" where
  "HasPrefix s pre = (length pre \<le> length s \<and> take (length pre) s = pre)"

section \<open>Key\<close>

text \<open>
  \<^verbatim>\<open>type Key struct { appID, namespace string; parent *Key; kind, stringID string; intID int64 }\<close>.
  A \<^verbatim>\<open>*Key\<close> is a \<open>Key option\<close>.
\<close>

datatype Key = Key (appID: string) (namespace: string) (parent: "Key option")
  (kind: string) (stringID: string) (intID: "64 word")

definition Incomplete :: "Key \<Rightarrow> bool" where
  "Incomplete k = (stringID k = [] \<and> intID k = 0)"

text \<open>The loop of \<^verbatim>\<open>Key.valid\<close>: \<^verbatim>\<open>for ; k != nil; k = k.parent\<close>.\<close>

fun valid_loop :: "Key option \<Rightarrow> bool" where
  "valid_loop None = True"
| "valid_loop (Some (Key app ns par knd sid iid)) =
     (if knd = [] \<or> app = [] then False
      else if sid \<noteq> [] \<and> iid \<noteq> 0 then False
      else (case par of
              None \<Rightarrow> valid_loop par
            | Some p \<Rightarrow>
                if Incomplete p then False
                else if appID p \<noteq> app then False
                else if namespace p \<noteq> ns then False
                else valid_loop par))"

definition valid :: "Key option \<Rightarrow> bool" where
  "valid k = (if k = None then False else valid_loop k)"

text \<open>
  \<^verbatim>\<open>Key.Eq\<close> (key.go) and \<^verbatim>\<open>Key.Equal\<close> (the later variant of the file). The loop runs
  while both pointers are set; the final \<^verbatim>\<open>k == o\<close> compares two pointers of which at
  least one is \<^verbatim>\<open>nil\<close>, so it holds exactly when both are.
\<close>

fun Eq :: "Key option \<Rightarrow> Key option \<Rightarrow> bool" where
  "Eq (Some (Key kapp kns kpar kknd ksid kiid)) (Some (Key oapp ons opar oknd osid oiid)) =
     (if kknd \<noteq> oknd \<or> ksid \<noteq> osid \<or> kiid \<noteq> oiid \<or> kns \<noteq> ons \<or> kapp \<noteq> oapp
      then False else Eq kpar opar)"
| "Eq None None = True"
| "Eq None (Some ok) = False"
| "Eq (Some kk) None = False"

fun Equal :: "Key option \<Rightarrow> Key option \<Rightarrow> bool" where
  "Equal (Some (Key kapp kns kpar kknd ksid kiid)) (Some (Key oapp ons opar oknd osid oiid)) =
     (if kknd \<noteq> oknd \<or> ksid \<noteq> osid \<or> kiid \<noteq> oiid \<or> kapp \<noteq> oapp \<or> kns \<noteq> ons
      then False else Equal kpar opar)"
| "Equal None None = True"
| "Equal None (Some ok) = False"
| "Equal (Some kk) None = False"

text \<open>
  The ancestor chain of a key pointer, leaf first: one tuple
  (kind, stringID, intID, appID, namespace) per level.
\<close>

fun chain :: "Key option \<Rightarrow> (string \<times> string \<times> 64 word \<times> string \<times> string) list" where
  "chain None = []"
| "chain (Some (Key app ns par knd sid iid)) = (knd, sid, iid, app, ns) # chain par"

subsection \<open>Batch validation\<close>

text \<open>
  \<^verbatim>\<open>multiValid\<close>: the first loop looks for an invalid key and breaks at the first one;
  the second fills \<^verbatim>\<open>err := make(ErrMulti, len(key))\<close> by index.
\<close>

fun multiValid_invalid :: "Key option list \<Rightarrow> bool" where
  "multiValid_invalid [] = False"
| "multiValid_invalid (k # key) = (if \<not> valid k then True else multiValid_invalid key)"

fun multiValid_fill :: "nat \<Rightarrow> Key option list \<Rightarrow> error option list \<Rightarrow> error option list" where
  "multiValid_fill i [] err = err"
| "multiValid_fill i (k # key) err =
     multiValid_fill (Suc i) key (if \<not> valid k then err[i := Some ErrInvalidKey] else err)"

definition multiValid :: "Key option list \<Rightarrow> error option" where
  "multiValid key =
     (if \<not> multiValid_invalid key then None
      else Some (ErrMulti (multiValid_fill 0 key (replicate (length key) None))))"

section \<open>The wire reference message\<close>

text \<open>
  The generated protocol buffer types \<^verbatim>\<open>pb.Reference\<close>, \<^verbatim>\<open>pb.Path\<close> and
  \<^verbatim>\<open>pb.Path_Element\<close>: every scalar field is a pointer, \<^verbatim>\<open>nil\<close> when the field is unset.
  \<^verbatim>\<open>proto.GetString\<close> and \<^verbatim>\<open>proto.GetInt64\<close> read a pointer, giving the zero value for
  \<^verbatim>\<open>nil\<close>.
\<close>

record pb_Path_Element =
  Type :: "string option"
  Id_e :: "64 word option"
  Name :: "string option"

record pb_Path =
  Element :: "pb_Path_Element list"

record pb_Reference =
  App :: "string option"
  NameSpace :: "string option"
  Path :: "pb_Path option"

definition GetString :: "string option \<Rightarrow> string" where
  "GetString p = (case p of None \<Rightarrow> [] | Some s \<Rightarrow> s)"

definition GetInt64 :: "64 word option \<Rightarrow> 64 word" where
  "GetInt64 p = (case p of None \<Rightarrow> 0 | Some i \<Rightarrow> i)"

subsection \<open>keyToProto\<close>

text \<open>The first loop of \<^verbatim>\<open>keyToProto\<close> counts the levels of the chain.\<close>

fun keyToProto_count :: "Key option \<Rightarrow> nat \<Rightarrow> nat" where
  "keyToProto_count None n = n"
| "keyToProto_count (Some (Key app ns par knd sid iid)) n = keyToProto_count par (Suc n)"

text \<open>The path element written for one level: at most one of Name and Id is set.\<close>

definition path_element :: "Key \<Rightarrow> pb_Path_Element" where
  "path_element i =
     (let e = \<lparr>Type = Some (kind i), Id_e = None, Name = None\<rparr>
      in if stringID i \<noteq> [] then e\<lparr>Name := Some (stringID i)\<rparr>
         else if intID i \<noteq> 0 then e\<lparr>Id_e := Some (intID i)\<rparr>
         else e)"

text \<open>
  The second loop walks from the leaf to the root and writes \<^verbatim>\<open>e[n]\<close> after \<^verbatim>\<open>n--\<close>, so
  the root ends first. The slice \<^verbatim>\<open>make([]*pb.Path_Element, n)\<close> starts with \<open>n\<close> unset
  slots, here elements with no field set; every slot is written once.
\<close>

definition unset_element :: pb_Path_Element where
  "unset_element = \<lparr>Type = None, Id_e = None, Name = None\<rparr>"

fun keyToProto_fill :: "Key option \<Rightarrow> nat \<Rightarrow> pb_Path_Element list \<Rightarrow> pb_Path_Element list" where
  "keyToProto_fill None n e = e"
| "keyToProto_fill (Some (Key app ns par knd sid iid)) n e =
     keyToProto_fill par (n - 1) (e[n - 1 := path_element (Key app ns par knd sid iid)])"

definition keyToProto :: "Key \<Rightarrow> pb_Reference" where
  "keyToProto k =
     (let namespace' = (if namespace k \<noteq> [] then Some (namespace k) else None);
          n = keyToProto_count (Some k) 0;
          e = keyToProto_fill (Some k) n (replicate n unset_element)
      in \<lparr>App = Some (appID k), NameSpace = namespace', Path = Some \<lparr>Element = e\<rparr>\<rparr>)"

subsection \<open>protoToKey\<close>

text \<open>
  The loop of \<^verbatim>\<open>protoToKey\<close> over \<^verbatim>\<open>r.Path.Element\<close>: each element becomes a new leaf
  whose parent is the key built so far, and the first invalid one aborts. The result
  \<open>Inr k\<close> is the pair \<^verbatim>\<open>(k, nil)\<close>, \<open>Inl err\<close> is \<^verbatim>\<open>(nil, err)\<close>.
\<close>

fun protoToKey_loop ::
  "string \<Rightarrow> string \<Rightarrow> Key option \<Rightarrow> pb_Path_Element list \<Rightarrow> error + Key option" where
  "protoToKey_loop app ns k [] = Inr k"
| "protoToKey_loop app ns k (e # es) =
     (let k' = Some (Key app ns k (GetString (Type e)) (GetString (Name e)) (GetInt64 (Id_e e)))
      in if \<not> valid k' then Inl ErrInvalidKey
         else protoToKey_loop app ns k' es)"

definition protoToKey :: "pb_Reference \<Rightarrow> error + Key option" where
  "protoToKey r =
     (let app = GetString (App r);
          ns = GetString (NameSpace r)
      in case Path r of
           None \<Rightarrow> Inl (Panic NilDereference)
         | Some p \<Rightarrow> protoToKey_loop app ns None (Element p))"

subsection \<open>Encode and DecodeKey\<close>

text \<open>
  \<^verbatim>\<open>proto.Marshal\<close>, \<^verbatim>\<open>proto.Unmarshal\<close> and \<^verbatim>\<open>base64.URLEncoding\<close> belong to libraries
  outside the repository; the functions that call them take them as a record.
\<close>

record codec =
  Marshal :: "pb_Reference \<Rightarrow> error + string"
  Unmarshal :: "string \<Rightarrow> error + pb_Reference"
  EncodeToString :: "string \<Rightarrow> string"
  DecodeString :: "string \<Rightarrow> error + string"

text \<open>
  \<^verbatim>\<open>Key.Encode\<close> panics when marshalling fails, and on a \<^verbatim>\<open>nil\<close> receiver, which
  \<^verbatim>\<open>keyToProto\<close> dereferences.
\<close>

definition Encode :: "codec \<Rightarrow> Key option \<Rightarrow> error + string" where
  "Encode c k =
     (case k of
        None \<Rightarrow> Inl (Panic NilDereference)
      | Some k' \<Rightarrow>
          (case Marshal c (keyToProto k') of
             Inl err \<Rightarrow> Inl (Panic err)
           | Inr b \<Rightarrow> Inr (TrimRight (EncodeToString c b) ''='')))"

definition DecodeKey :: "codec \<Rightarrow> string \<Rightarrow> error + Key option" where
  "DecodeKey c encoded =
     (let m = length encoded mod 4;
          encoded' = (if m \<noteq> 0 then encoded @ Repeat ''='' (4 - m) else encoded)
      in case DecodeString c encoded' of
           Inl err \<Rightarrow> Inl err
         | Inr b \<Rightarrow>
             (case Unmarshal c b of
                Inl err \<Rightarrow> Inl err
              | Inr ref \<Rightarrow> protoToKey ref))"

section \<open>White space\<close>

text \<open>
  \<^verbatim>\<open>strings.TrimSpace\<close> removes the leading and trailing white space runes, as
  \<^verbatim>\<open>unicode.IsSpace\<close> defines them. On the bytes of a string these are the UTF-8
  encodings below: the six ASCII characters, U+0085 and U+00A0, and the \<^verbatim>\<open>White_Space\<close>
  code points beyond Latin-1 of Unicode 6.0 (U+1680, U+180E, U+2000 to U+200A, U+2028,
  U+2029, U+202F, U+205F, U+3000). No encoding is a prefix or a suffix of another one.
\<close>

definition White_Space :: "string list" where
  "White_Space =
     [[CHR 0x09], [CHR 0x0A], [CHR 0x0B], [CHR 0x0C], [CHR 0x0D], [CHR 0x20],
      [CHR 0xC2, CHR 0x85], [CHR 0xC2, CHR 0xA0],
      [CHR 0xE1, CHR 0x9A, CHR 0x80], [CHR 0xE1, CHR 0xA0, CHR 0x8E],
      [CHR 0xE2, CHR 0x80, CHR 0x80], [CHR 0xE2, CHR 0x80, CHR 0x81],
      [CHR 0xE2, CHR 0x80, CHR 0x82], [CHR 0xE2, CHR 0x80, CHR 0x83],
      [CHR 0xE2, CHR 0x80, CHR 0x84], [CHR 0xE2, CHR 0x80, CHR 0x85],
      [CHR 0xE2, CHR 0x80, CHR 0x86], [CHR 0xE2, CHR 0x80, CHR 0x87],
      [CHR 0xE2, CHR 0x80, CHR 0x88], [CHR 0xE2, CHR 0x80, CHR 0x89],
      [CHR 0xE2, CHR 0x80, CHR 0x8A], [CHR 0xE2, CHR 0x80, CHR 0xA8],
      [CHR 0xE2, CHR 0x80, CHR 0xA9], [CHR 0xE2, CHR 0x80, CHR 0xAF],
      [CHR 0xE2, CHR 0x81, CHR 0x9F], [CHR 0xE3, CHR 0x80, CHR 0x80]]"

text \<open>Removes, as long as there is one, a leading occurrence of one of the given words.\<close>

function trim_words :: "string list \<Rightarrow> string \<Rightarrow> string" where
  "trim_words ws s =
     (case find (\<lambda>w. w \<noteq> [] \<and> HasPrefix s w) ws of
        None \<Rightarrow> s
      | Some w \<Rightarrow> trim_words ws (drop (length w) s))"
  by pat_completeness auto
termination
proof (relation "measure (\<lambda>(ws, s). length s)")
  show "wf (measure (\<lambda>(ws, s). length s))" by simp
next
  fix ws :: "string list" and s w :: string
  assume "find (\<lambda>w. w \<noteq> [] \<and> HasPrefix s w) ws = Some w"
  then have "w \<noteq> [] \<and> HasPrefix s w" by (auto simp: find_Some_iff)
  then have "length w \<le> length s" and "w \<noteq> []"
    by (auto simp: HasPrefix_def)
  then show "((ws, drop (length w) s), (ws, s)) \<in> measure (\<lambda>(ws, s). length s)"
    by (cases w) auto
qed

declare trim_words.simps [simp del]

definition TrimSpace :: "string \<Rightarrow> string" where
  "TrimSpace s = rev (trim_words (map rev White_Space) (rev (trim_words White_Space s)))"

section \<open>Slices\<close>

text \<open>
  A Go slice is a header (pointer to a backing array, length, capacity); the \<^verbatim>\<open>nil\<close>
  slice has no array. The backing arrays live in a store, a list indexed by address,
  each array as long as its capacity. Copying a struct that holds a slice copies the
  header and shares the array.
\<close>

datatype slice = Slice (array: "nat option") (len: nat) (cap: nat)

definition nil_slice :: slice where
  "nil_slice = Slice None 0 0"

definition elems :: "'a list list \<Rightarrow> slice \<Rightarrow> 'a list" where
  "elems h s =
     (case array s of
        None \<Rightarrow> []
      | Some a \<Rightarrow> if a < length h then take (len s) (h ! a) else [])"

text \<open>
  The capacity the runtime gives a full slice that grows by one element: the new
  length for an empty slice, twice the old capacity below 1024 elements, a quarter
  more from there on.
\<close>

definition growslice :: "nat \<Rightarrow> nat \<Rightarrow> nat" where
  "growslice xlen xcap =
     (if xcap = 0 then xlen + 1
      else if xlen < 1024 then xcap + xcap
      else xcap + xcap div 4)"

text \<open>
  \<^verbatim>\<open>append(s, x)\<close>: when the capacity suffices the element is written into the
  array of \<open>s\<close>, behind its last element, and the result shares that array; otherwise
  the elements are copied into a new, larger array (\<open>zero\<close> fills its spare cells).
\<close>

definition append1 :: "'a \<Rightarrow> 'a list list \<Rightarrow> slice \<Rightarrow> 'a \<Rightarrow> slice \<times> 'a list list" where
  "append1 zero h s x =
     (case array s of
        Some a \<Rightarrow>
          if len s + 1 \<le> cap s \<and> a < length h
          then (Slice (Some a) (len s + 1) (cap s), h[a := (h ! a)[len s := x]])
          else (let c = growslice (len s) (cap s)
                in (Slice (Some (length h)) (len s + 1) c,
                    h @ [elems h s @ x # replicate (c - (len s + 1)) zero]))
      | None \<Rightarrow>
          (let c = growslice (len s) (cap s)
           in (Slice (Some (length h)) (len s + 1) c,
               h @ [x # replicate (c - (len s + 1)) zero])))"

section \<open>Query\<close>

text \<open>
  \<^verbatim>\<open>type queryFilter struct { filter string; value interface{} }\<close>: the value is of any
  type \<open>'v\<close>, or \<^verbatim>\<open>nil\<close>. \<^verbatim>\<open>type queryOrder string\<close>.
  \<^verbatim>\<open>type Query struct { kind string; ancestor *Key; filter []queryFilter; order []queryOrder }\<close>.
  The builders return a pointer to a fresh copy of the struct, which nothing writes
  to afterwards; the model passes the struct itself.
\<close>

record 'v queryFilter =
  f_filter :: string
  f_value :: "'v option"

record Query =
  q_kind :: string
  q_ancestor :: "Key option"
  q_filter :: slice
  q_order :: slice

record 'v heap =
  filters :: "'v queryFilter list list"
  orders :: "string list list"

definition empty_heap :: "'v heap" where
  "empty_heap = \<lparr>filters = [], orders = []\<rparr>"

definition NewQuery :: "string \<Rightarrow> Query" where
  "NewQuery kind' = \<lparr>q_kind = kind', q_ancestor = None, q_filter = nil_slice, q_order = nil_slice\<rparr>"

definition Query_Kind :: "Query \<Rightarrow> string \<Rightarrow> 'v heap \<Rightarrow> Query \<times> 'v heap" where
  "Query_Kind q kind' h = (let c = q in (c\<lparr>q_kind := kind'\<rparr>, h))"

definition Query_Ancestor :: "Query \<Rightarrow> Key option \<Rightarrow> 'v heap \<Rightarrow> Query \<times> 'v heap" where
  "Query_Ancestor q ancestor h = (let c = q in (c\<lparr>q_ancestor := ancestor\<rparr>, h))"

definition Query_Filter :: "Query \<Rightarrow> string \<Rightarrow> 'v option \<Rightarrow> 'v heap \<Rightarrow> Query \<times> 'v heap" where
  "Query_Filter q filterStr v h =
     (let c = q;
          (s, fs) = append1 \<lparr>f_filter = [], f_value = None\<rparr> (filters h) (q_filter c)
                      \<lparr>f_filter = filterStr, f_value = v\<rparr>
      in (c\<lparr>q_filter := s\<rparr>, h\<lparr>filters := fs\<rparr>))"

definition Query_Order :: "Query \<Rightarrow> string \<Rightarrow> 'v heap \<Rightarrow> Query \<times> 'v heap" where
  "Query_Order q order' h =
     (let c = q;
          (s, os) = append1 [] (orders h) (q_order c) order'
      in (c\<lparr>q_order := s\<rparr>, h\<lparr>orders := os\<rparr>))"

text \<open>What a query holds in a given store: the elements of its two slices.\<close>

definition filter_list :: "'v heap \<Rightarrow> Query \<Rightarrow> 'v queryFilter list" where
  "filter_list h q = elems (filters h) (q_filter q)"

definition order_list :: "'v heap \<Rightarrow> Query \<Rightarrow> string list" where
  "order_list h q = elems (orders h) (q_order q)"

subsection \<open>The wire query message\<close>

datatype Query_Filter_Operator =
  LESS_THAN | LESS_THAN_OR_EQUAL | GREATER_THAN | GREATER_THAN_OR_EQUAL | EQUAL

datatype Query_Order_Direction = ASCENDING | DESCENDING

text \<open>
  \<^verbatim>\<open>pb.Query_Filter\<close>, \<^verbatim>\<open>pb.Query_Order\<close> and the fields of \<^verbatim>\<open>pb.Query\<close> the two
  conversions write. \<open>'p\<close> is \<^verbatim>\<open>*pb.Property\<close>, \<open>'c\<close> is \<^verbatim>\<open>*pb.CompiledCursor\<close>; a repeated
  field is a list, empty when \<^verbatim>\<open>nil\<close>.
\<close>

record 'p pb_Query_Filter =
  Op :: "Query_Filter_Operator option"
  Property :: "'p list"

record pb_Query_Order =
  Property_o :: "string option"
  Direction :: "Query_Order_Direction option"

record ('p, 'c) pb_Query =
  Kind :: "string option"
  Ancestor :: "pb_Reference option"
  Filter :: "'p pb_Query_Filter list"
  Order :: "pb_Query_Order list"
  Limit :: "32 word option"
  Offset :: "32 word option"
  KeysOnly :: "bool option"
  Compile :: "bool option"
  CompiledCursor :: "'c option"
  EndCompiledCursor :: "'c option"

definition new_Query_Filter :: "'p pb_Query_Filter" where
  "new_Query_Filter = \<lparr>Op = None, Property = []\<rparr>"

definition new_Query_Order :: pb_Query_Order where
  "new_Query_Order = \<lparr>Property_o = None, Direction = None\<rparr>"

definition new_Query :: "('p, 'c) pb_Query" where
  "new_Query =
     \<lparr>Kind = None, Ancestor = None, Filter = [], Order = [], Limit = None, Offset = None,
      KeysOnly = None, Compile = None, CompiledCursor = None, EndCompiledCursor = None\<rparr>"

subsection \<open>queryFilter\<close>

definition operatorToProto :: "string \<Rightarrow> Query_Filter_Operator option" where
  "operatorToProto =
     [''<'' \<mapsto> LESS_THAN,
      ''<='' \<mapsto> LESS_THAN_OR_EQUAL,
      ''='' \<mapsto> EQUAL,
      ''>='' \<mapsto> GREATER_THAN_OR_EQUAL,
      ''>'' \<mapsto> GREATER_THAN]"

text \<open>\<^verbatim>\<open>queryFilter.parse\<close> returns (property, operator, err); \<open>Inl\<close> is a set \<^verbatim>\<open>err\<close>.\<close>

definition queryFilter_parse :: "'v queryFilter \<Rightarrow> error + string \<times> string" where
  "queryFilter_parse q =
     (let filter' = TrimSpace (f_filter q)
      in if filter' = [] then Inl (ErrorString (''datastore: invalid query filter: '' @ filter'))
         else let property = TrimRight filter' '' ><=''
              in if property = [] then Inl (ErrorString ''datastore: empty query filter property'')
                 else Inr (property, TrimSpace (drop (length property) filter')))"

text \<open>
  \<^verbatim>\<open>queryFilter.String\<close> is \<^verbatim>\<open>fmt.Sprintf("%v%#v", q.filter, q.value)\<close>; \<open>goSyntax\<close> is the
  \<^verbatim>\<open>%#v\<close> rendering of the value.
\<close>

definition queryFilter_String :: "('v option \<Rightarrow> string) \<Rightarrow> 'v queryFilter \<Rightarrow> string" where
  "queryFilter_String goSyntax q = f_filter q @ goSyntax (f_value q)"

text \<open>
  \<^verbatim>\<open>queryFilter.toProto\<close> writes into \<^verbatim>\<open>dst\<close> and returns the error. \<open>valueToProto\<close> is
  the package's conversion of a property value, which returns the property and an
  error string, empty on success.
\<close>

definition queryFilter_toProto ::
  "(string \<Rightarrow> 'v option \<Rightarrow> bool \<Rightarrow> 'p \<times> string) \<Rightarrow> 'v queryFilter \<Rightarrow> 'p pb_Query_Filter
     \<Rightarrow> 'p pb_Query_Filter \<times> error option" where
  "queryFilter_toProto valueToProto q dst =
     (case queryFilter_parse q of
        Inl err \<Rightarrow> (dst, Some err)
      | Inr (property, operator) \<Rightarrow>
          (let dst1 = dst\<lparr>Op := operatorToProto operator\<rparr>
           in if Op dst1 = None
              then (dst1, Some (Errorf_invalid_operator operator (f_filter q)))
              else (let (prop, errStr) = valueToProto property (f_value q) False
                    in if errStr \<noteq> [] then (dst1, Some (Errorf_bad_value_type errStr))
                       else (dst1\<lparr>Property := [prop]\<rparr>, None))))"

subsection \<open>queryOrder\<close>

definition orderDirectionToProto :: "string \<Rightarrow> Query_Order_Direction option" where
  "orderDirectionToProto = [''+'' \<mapsto> ASCENDING, ''-'' \<mapsto> DESCENDING]"

text \<open>\<^verbatim>\<open>queryOrder.parse\<close> returns (property, direction); its error is always \<^verbatim>\<open>nil\<close>.\<close>

definition queryOrder_parse :: "string \<Rightarrow> string \<times> string" where
  "queryOrder_parse q =
     (let property = TrimSpace q;
          direction = ''+''
      in if HasPrefix property ''-'' then (TrimSpace (drop 1 property), ''-'')
         else (property, direction))"

definition queryOrder_String :: "string \<Rightarrow> string" where
  "queryOrder_String q =
     (let (property, direction) = queryOrder_parse q;
          direction' = (if direction = ''+'' then ''ASC'' else ''DESC'')
      in property @ '' '' @ direction')"

definition queryOrder_toProto :: "string \<Rightarrow> pb_Query_Order \<Rightarrow> pb_Query_Order \<times> error option" where
  "queryOrder_toProto q dst =
     (let (property, direction) = queryOrder_parse q
      in if property = [] then (dst, Some (ErrorString ''datastore: empty query order property''))
         else (dst\<lparr>Property_o := Some property, Direction := orderDirectionToProto direction\<rparr>,
               None))"

subsection \<open>Query.String\<close>

text \<open>
  The two loops of \<^verbatim>\<open>Query.String\<close>, over the filters (with the flag \<^verbatim>\<open>hasWhere\<close>) and
  over the orders (with the index \<^verbatim>\<open>i\<close>). The ancestor is printed through
  \<^verbatim>\<open>Key.Encode\<close>, whose panic ends the call.
\<close>

fun String_filters :: "('v option \<Rightarrow> string) \<Rightarrow> bool \<Rightarrow> 'v queryFilter list \<Rightarrow> string" where
  "String_filters goSyntax hasWhere [] = []"
| "String_filters goSyntax hasWhere (f # fs) =
     (if \<not> hasWhere then '' WHERE'' else '' AND'')
     @ '' '' @ queryFilter_String goSyntax f
     @ String_filters goSyntax True fs"

fun String_orders :: "nat \<Rightarrow> string list \<Rightarrow> string" where
  "String_orders i [] = []"
| "String_orders i (order' # os) =
     (if i > 0 then '','' else [])
     @ '' '' @ queryOrder_String order'
     @ String_orders (Suc i) os"

definition Query_String ::
  "codec \<Rightarrow> ('v option \<Rightarrow> string) \<Rightarrow> 'v heap \<Rightarrow> Query \<Rightarrow> error + string" where
  "Query_String c goSyntax h q =
     (let buf = ''SELECT *'';
          buf1 = (if q_kind q \<noteq> [] then buf @ '' FROM '' @ q_kind q else buf)
      in case (case q_ancestor q of
                 None \<Rightarrow> Inr (buf1, False)
               | Some a \<Rightarrow>
                   (case Encode c (Some a) of
                      Inl err \<Rightarrow> Inl err
                    | Inr encoded \<Rightarrow>
                        Inr (buf1 @ '' WHERE ANCESTOR IS KEY('' @ [CHR 0x27] @ encoded
                               @ [CHR 0x27] @ '')'', True))) of
           Inl err \<Rightarrow> Inl err
         | Inr (buf2, hasWhere) \<Rightarrow>
             (let buf3 = (if array (q_filter q) \<noteq> None
                          then buf2 @ String_filters goSyntax hasWhere (filter_list h q)
                          else buf2);
                  buf4 = (if array (q_order q) \<noteq> None
                          then buf3 @ '' ORDER BY'' @ String_orders 0 (order_list h q)
                          else buf3)
              in Inr buf4))"

subsection \<open>Query.toProto\<close>

text \<open>
  Modelled from the spec: \<^verbatim>\<open>Key.toProto\<close>, the method \<^verbatim>\<open>Query.toProto\<close> calls on the
  ancestor, is not among the sources. The spec has the ancestor encoded into the wire
  ancestor field; key.go does this in \<^verbatim>\<open>keyToProto\<close>, and names \<^verbatim>\<open>toProto\<close> as the same
  conversion.
\<close>

definition Key_toProto :: "Key \<Rightarrow> pb_Reference" where
  "Key_toProto k = keyToProto k"

text \<open>
  The filter loop and the order loop of \<^verbatim>\<open>Query.toProto\<close>: each element is converted
  into a fresh message, which takes its slot of the destination whether or not the
  conversion failed, and an error is appended to \<^verbatim>\<open>errMulti\<close>.
\<close>

fun toProto_filters ::
  "(string \<Rightarrow> 'v option \<Rightarrow> bool \<Rightarrow> 'p \<times> string) \<Rightarrow> 'v queryFilter list \<Rightarrow> error option list
     \<Rightarrow> 'p pb_Query_Filter list \<times> error option list" where
  "toProto_filters valueToProto [] errMulti = ([], errMulti)"
| "toProto_filters valueToProto (f # fs) errMulti =
     (let (filter', err) = queryFilter_toProto valueToProto f new_Query_Filter;
          errMulti' = (case err of None \<Rightarrow> errMulti | Some e \<Rightarrow> errMulti @ [Some e]);
          (rest, errMulti'') = toProto_filters valueToProto fs errMulti'
      in (filter' # rest, errMulti''))"

fun toProto_orders ::
  "string list \<Rightarrow> error option list \<Rightarrow> pb_Query_Order list \<times> error option list" where
  "toProto_orders [] errMulti = ([], errMulti)"
| "toProto_orders (o' # os) errMulti =
     (let (order', err) = queryOrder_toProto o' new_Query_Order;
          errMulti' = (case err of None \<Rightarrow> errMulti | Some e \<Rightarrow> errMulti @ [Some e]);
          (rest, errMulti'') = toProto_orders os errMulti'
      in (order' # rest, errMulti''))"

definition Query_toProto ::
  "(string \<Rightarrow> 'v option \<Rightarrow> bool \<Rightarrow> 'p \<times> string) \<Rightarrow> 'v heap \<Rightarrow> Query \<Rightarrow> ('p, 'c) pb_Query
     \<Rightarrow> ('p, 'c) pb_Query \<times> error option" where
  "Query_toProto valueToProto h q dst =
     (let errMulti = [];
          (dst1, errMulti1) =
            (if q_kind q \<noteq> [] then (dst\<lparr>Kind := Some (q_kind q)\<rparr>, errMulti)
             else (dst, errMulti @ [Some (ErrorString ''datastore: empty query kind'')]));
          dst2 = (case q_ancestor q of
                    None \<Rightarrow> dst1
                  | Some a \<Rightarrow> dst1\<lparr>Ancestor := Some (Key_toProto a)\<rparr>);
          (dst3, errMulti3) =
            (if array (q_filter q) \<noteq> None
             then (let (fs, em) = toProto_filters valueToProto (filter_list h q) errMulti1
                   in (dst2\<lparr>Filter := fs\<rparr>, em))
             else (dst2, errMulti1));
          (dst4, errMulti4) =
            (if array (q_order q) \<noteq> None
             then (let (os, em) = toProto_orders (order_list h q) errMulti3
                   in (dst3\<lparr>Order := os\<rparr>, em))
             else (dst3, errMulti3))
      in if length errMulti4 > 0 then (dst4, Some (ErrMulti errMulti4)) else (dst4, None))"

section \<open>QueryOptions\<close>

text \<open>
  \<^verbatim>\<open>limit\<close> and \<^verbatim>\<open>offset\<close> are of Go's type \<^verbatim>\<open>int\<close>, 64 bits wide here (on a 32-bit
  platform no \<^verbatim>\<open>int\<close> exceeds \<^verbatim>\<open>math.MaxInt32\<close>); comparisons are signed.
\<close>

record 'c Cursor =
  compiledCursor :: "'c option"

record 'c QueryOptions =
  limit :: "64 word"
  offset :: "64 word"
  keysOnly :: bool
  compile :: bool
  startCursor :: "'c Cursor option"
  endCursor :: "'c Cursor option"

definition NewQueryOptions :: "64 word \<Rightarrow> 64 word \<Rightarrow> 'c QueryOptions" where
  "NewQueryOptions limit' offset' =
     \<lparr>limit = limit', offset = offset', keysOnly = False, compile = False,
      startCursor = None, endCursor = None\<rparr>"

definition MaxInt32 :: "64 word" where
  "MaxInt32 = 2147483647"

definition validInt32 :: "64 word \<Rightarrow> string \<Rightarrow> error option" where
  "validInt32 v name =
     (if v <s 0 then Some (ErrorString (''datastore: negative value for '' @ name))
      else if MaxInt32 <s v then Some (ErrorString (''datastore: value overflow for '' @ name))
      else None)"

definition QueryOptions_toProto ::
  "'c QueryOptions \<Rightarrow> ('p, 'c) pb_Query \<Rightarrow> ('p, 'c) pb_Query \<times> error option" where
  "QueryOptions_toProto o' dst =
     (let errMulti = [];
          (dst1, errMulti1) =
            (case validInt32 (limit o') ''limit'' of
               Some err \<Rightarrow> (dst, errMulti @ [Some err])
             | None \<Rightarrow> (dst\<lparr>Limit := Some (ucast (limit o'))\<rparr>, errMulti));
          (dst2, errMulti2) =
            (case validInt32 (offset o') ''offset'' of
               Some err \<Rightarrow> (dst1, errMulti1 @ [Some err])
             | None \<Rightarrow> (dst1\<lparr>Offset := Some (ucast (offset o'))\<rparr>, errMulti1));
          dst3 = dst2\<lparr>KeysOnly := Some (keysOnly o')\<rparr>;
          dst4 = dst3\<lparr>Compile := Some (compile o')\<rparr>;
          dst5 = (case startCursor o' of
                    None \<Rightarrow> dst4
                  | Some cur \<Rightarrow> dst4\<lparr>CompiledCursor := compiledCursor cur\<rparr>);
          dst6 = (case endCursor o' of
                    None \<Rightarrow> dst5
                  | Some cur \<Rightarrow> dst5\<lparr>EndCompiledCursor := compiledCursor cur\<rparr>)
      in if length errMulti2 > 0 then (dst6, Some (ErrMulti errMulti2)) else (dst6, None))"

section \<open>Property values to run the conversions on\<close>

text \<open>
  The values used to run the conversions on concrete queries are Go \<^verbatim>\<open>int\<close>s and
  \<^verbatim>\<open>bool\<close>s. \<^verbatim>\<open>%#v\<close> prints an \<^verbatim>\<open>int\<close> in decimal, a \<^verbatim>\<open>bool\<close> as \<^verbatim>\<open>true\<close> or \<^verbatim>\<open>false\<close> and a
  \<^verbatim>\<open>nil\<close> interface as \<^verbatim>\<open><nil>\<close>.
\<close>

datatype scalar = IntV "64 word" | BoolV bool

fun digits :: "nat \<Rightarrow> string" where
  "digits n = (if n < 10 then [char_of (48 + n)] else digits (n div 10) @ [char_of (48 + n mod 10)])"

definition Itoa :: "int \<Rightarrow> string" where
  "Itoa i = (if i < 0 then ''-'' @ digits (nat (- i)) else digits (nat i))"

definition goSyntax_scalar :: "scalar option \<Rightarrow> string" where
  "goSyntax_scalar v =
     (case v of
        None \<Rightarrow> ''<nil>''
      | Some (IntV i) \<Rightarrow> Itoa (sint i)
      | Some (BoolV b) \<Rightarrow> (if b then ''true'' else ''false''))"

datatype pb_PropertyValue = Int64Value "64 word" | BooleanValue bool

record pb_Property =
  Name_p :: "string option"
  Value_p :: pb_PropertyValue
  Multiple :: "bool option"

text \<open>
  Modelled from the spec: \<^verbatim>\<open>valueToProto\<close>, the value-conversion routine of the package,
  is not among the sources. It maps the dynamic type of the scalar to the tagged
  property representation of the backend and reports a failure with the name of the
  offending type; here on integers and booleans, with \<^verbatim>\<open>nil\<close>, which has no type,
  reported as a failure.
\<close>

definition valueToProto_scalar :: "string \<Rightarrow> scalar option \<Rightarrow> bool \<Rightarrow> pb_Property option \<times> string" where
  "valueToProto_scalar name v multiple =
     (case v of
        None \<Rightarrow> (None, ''<nil>'')
      | Some (IntV i) \<Rightarrow>
          (Some \<lparr>Name_p = Some name, Value_p = Int64Value i, Multiple = Some multiple\<rparr>, [])
      | Some (BoolV b) \<Rightarrow>
          (Some \<lparr>Name_p = Some name, Value_p = BooleanValue b, Multiple = Some multiple\<rparr>, []))"

section \<open>A codec to run the encoding on\<close>

text \<open>
  An instance of the two libraries, for running \<^verbatim>\<open>Encode\<close> and \<^verbatim>\<open>DecodeKey\<close> on
  concrete keys: base64 with the URL-safe alphabet and padding (RFC 4648), and the
  protocol buffer wire format of a reference: \<^verbatim>\<open>app\<close> is field 13, \<^verbatim>\<open>path\<close> field 14,
  \<^verbatim>\<open>name_space\<close> field 20; a path is a sequence of groups (field 1) holding \<^verbatim>\<open>type\<close>
  (field 2), \<^verbatim>\<open>id\<close> (field 3, a varint) and \<^verbatim>\<open>name\<close> (field 4). The decoder reads these
  fields and rejects anything else. The general theorems do not depend on it.
\<close>

definition encodeURL :: string where
  "encodeURL = ''ABCDEFGHIJKLMNOPQRSTUVWXYZabcdefghijklmnopqrstuvwxyz0123456789-_''"

fun base64_encode :: "nat list \<Rightarrow> string" where
  "base64_encode (a # b # c # src) =
     [encodeURL ! (a div 4), encodeURL ! ((a mod 4) * 16 + b div 16),
      encodeURL ! ((b mod 16) * 4 + c div 64), encodeURL ! (c mod 64)] @ base64_encode src"
| "base64_encode [a, b] =
     [encodeURL ! (a div 4), encodeURL ! ((a mod 4) * 16 + b div 16),
      encodeURL ! ((b mod 16) * 4), CHR ''='']"
| "base64_encode [a] =
     [encodeURL ! (a div 4), encodeURL ! ((a mod 4) * 16), CHR ''='', CHR ''='']"
| "base64_encode [] = []"

fun decodeMap :: "string \<Rightarrow> nat \<Rightarrow> char \<Rightarrow> nat option" where
  "decodeMap [] i c = None"
| "decodeMap (x # xs) i c = (if x = c then Some i else decodeMap xs (Suc i) c)"

text \<open>One group of four characters, of which the last or the last two may be padding.\<close>

definition quantum :: "char \<Rightarrow> char \<Rightarrow> char \<Rightarrow> char \<Rightarrow> nat list option" where
  "quantum w x y z =
     (case (decodeMap encodeURL 0 w, decodeMap encodeURL 0 x) of
        (Some a, Some b) \<Rightarrow>
          if y = CHR ''='' \<and> z = CHR ''='' then Some [a * 4 + b div 16]
          else (case decodeMap encodeURL 0 y of
                  None \<Rightarrow> None
                | Some c \<Rightarrow>
                    if z = CHR ''='' then Some [a * 4 + b div 16, (b mod 16) * 16 + c div 4]
                    else (case decodeMap encodeURL 0 z of
                            None \<Rightarrow> None
                          | Some d \<Rightarrow>
                              Some [a * 4 + b div 16, (b mod 16) * 16 + c div 4,
                                    (c mod 4) * 64 + d]))
      | _ \<Rightarrow> None)"

fun base64_decode :: "string \<Rightarrow> nat list option" where
  "base64_decode [] = Some []"
| "base64_decode [w, x, y, z] = quantum w x y z"
| "base64_decode (w # x # y # z # s) =
     (if y = CHR ''='' \<or> z = CHR ''='' then None
      else case (quantum w x y z, base64_decode s) of
             (Some q, Some r) \<Rightarrow> Some (q @ r)
           | _ \<Rightarrow> None)"
| "base64_decode s = None"

fun varint :: "nat \<Rightarrow> nat list" where
  "varint n = (if n < 128 then [n] else (n mod 128 + 128) # varint (n div 128))"

fun get_varint :: "nat list \<Rightarrow> (nat \<times> nat list) option" where
  "get_varint [] = None"
| "get_varint (b # bs) =
     (if b < 128 then Some (b, bs)
      else case get_varint bs of
             None \<Rightarrow> None
           | Some (v, rest) \<Rightarrow> Some (b - 128 + 128 * v, rest))"

definition get_bytes :: "nat list \<Rightarrow> (string \<times> nat list) option" where
  "get_bytes bs =
     (case get_varint bs of
        None \<Rightarrow> None
      | Some (n, rest) \<Rightarrow>
          if n \<le> length rest then Some (map char_of (take n rest), drop n rest) else None)"

definition put_bytes :: "string \<Rightarrow> nat list" where
  "put_bytes s = varint (length s) @ map of_char s"

definition put_element :: "pb_Path_Element \<Rightarrow> nat list option" where
  "put_element e =
     (case Type e of
        None \<Rightarrow> None
      | Some t \<Rightarrow>
          Some ([11, 18] @ put_bytes t
                @ (case Id_e e of None \<Rightarrow> [] | Some i \<Rightarrow> 24 # varint (unat i))
                @ (case Name e of None \<Rightarrow> [] | Some n \<Rightarrow> 34 # put_bytes n)
                @ [12]))"

fun put_elements :: "pb_Path_Element list \<Rightarrow> nat list option" where
  "put_elements [] = Some []"
| "put_elements (e # es) =
     (case (put_element e, put_elements es) of
        (Some x, Some xs) \<Rightarrow> Some (x @ xs)
      | _ \<Rightarrow> None)"

definition wire_Marshal :: "pb_Reference \<Rightarrow> error + string" where
  "wire_Marshal r =
     (case (App r, Path r) of
        (Some app, Some p) \<Rightarrow>
          (case put_elements (Element p) of
             None \<Rightarrow> Inl (ErrorString ''proto: required field not set'')
           | Some body \<Rightarrow>
               Inr (map char_of
                 (106 # put_bytes app @ 114 # varint (length body) @ body
                  @ (case NameSpace r of None \<Rightarrow> [] | Some ns \<Rightarrow> [162, 1] @ put_bytes ns))))
      | _ \<Rightarrow> Inl (ErrorString ''proto: required field not set''))"

text \<open>
  The readers take the number of bytes left as fuel: each step consumes a byte, so
  the fuel never runs out before the input does.
\<close>

fun get_element ::
  "nat \<Rightarrow> nat list \<Rightarrow> pb_Path_Element \<Rightarrow> (pb_Path_Element \<times> nat list) option" where
  "get_element 0 bs e = None"
| "get_element (Suc fuel) [] e = None"
| "get_element (Suc fuel) (t # bs) e =
     (if t = 12 then (if Type e = None then None else Some (e, bs))
      else if t = 18 then
        (case get_bytes bs of
           None \<Rightarrow> None
         | Some (s, rest) \<Rightarrow> get_element fuel rest (e\<lparr>Type := Some s\<rparr>))
      else if t = 24 then
        (case get_varint bs of
           None \<Rightarrow> None
         | Some (v, rest) \<Rightarrow> get_element fuel rest (e\<lparr>Id_e := Some (of_nat v)\<rparr>))
      else if t = 34 then
        (case get_bytes bs of
           None \<Rightarrow> None
         | Some (s, rest) \<Rightarrow> get_element fuel rest (e\<lparr>Name := Some s\<rparr>))
      else None)"

fun get_elements :: "nat \<Rightarrow> nat list \<Rightarrow> pb_Path_Element list option" where
  "get_elements fuel [] = Some []"
| "get_elements 0 (t # bs) = None"
| "get_elements (Suc fuel) (t # bs) =
     (if t = 11 then
        (case get_element (Suc (length bs)) bs unset_element of
           None \<Rightarrow> None
         | Some (e, rest) \<Rightarrow>
             (case get_elements fuel rest of
                None \<Rightarrow> None
              | Some es \<Rightarrow> Some (e # es)))
      else None)"

fun get_reference :: "nat \<Rightarrow> nat list \<Rightarrow> pb_Reference \<Rightarrow> pb_Reference option" where
  "get_reference fuel [] r = Some r"
| "get_reference 0 (t # bs) r = None"
| "get_reference (Suc fuel) (t # bs) r =
     (if t = 106 then
        (case get_bytes bs of
           None \<Rightarrow> None
         | Some (s, rest) \<Rightarrow> get_reference fuel rest (r\<lparr>App := Some s\<rparr>))
      else if t = 114 then
        (case get_bytes bs of
           None \<Rightarrow> None
         | Some (body, rest) \<Rightarrow>
             (case get_elements (length body) (map of_char body) of
                None \<Rightarrow> None
              | Some es \<Rightarrow> get_reference fuel rest (r\<lparr>Path := Some \<lparr>Element = es\<rparr>\<rparr>)))
      else if t = 162 then
        (case bs of
           [] \<Rightarrow> None
         | u # bs' \<Rightarrow>
             if u = 1 then
               (case get_bytes bs' of
                  None \<Rightarrow> None
                | Some (s, rest) \<Rightarrow> get_reference fuel rest (r\<lparr>NameSpace := Some s\<rparr>))
             else None)
      else None)"

definition wire_Unmarshal :: "string \<Rightarrow> error + pb_Reference" where
  "wire_Unmarshal b =
     (case get_reference (length b) (map of_char b)
             \<lparr>App = None, NameSpace = None, Path = None\<rparr> of
        None \<Rightarrow> Inl (ErrorString ''proto: bad wire data'')
      | Some r \<Rightarrow>
          if App r = None \<or> Path r = None
          then Inl (ErrorString ''proto: required field not set'')
          else Inr r)"

definition wire_codec :: codec where
  "wire_codec =
     \<lparr>Marshal = wire_Marshal,
      Unmarshal = wire_Unmarshal,
      EncodeToString = (\<lambda>src. base64_encode (map of_char src)),
      DecodeString = (\<lambda>s. case base64_decode s of
                             None \<Rightarrow> Inl (ErrorString ''illegal base64 data'')
                           | Some b \<Rightarrow> Inr (map char_of b))\<rparr>"

section \<open>Notions the statements use\<close>

text \<open>The path a key chain stands for: one element per level, the root first.\<close>

fun path_of :: "Key option \<Rightarrow> pb_Path_Element list" where
  "path_of None = []"
| "path_of (Some (Key app ns par knd sid iid)) =
     path_of par @ [path_element (Key app ns par knd sid iid)]"

text \<open>The number of trailing occurrences of a character.\<close>

definition trailing :: "char \<Rightarrow> string \<Rightarrow> nat" where
  "trailing c s = length (takeWhile (\<lambda>x. x = c) (rev s))"

text \<open>The slot of \<^verbatim>\<open>multiValid\<close>'s result for one key.\<close>

definition slot :: "Key option \<Rightarrow> error option" where
  "slot k = (if valid k then None else Some ErrInvalidKey)"

text \<open>The errors a list of conversions reports, in order.\<close>

definition reported :: "('a \<Rightarrow> error option) \<Rightarrow> 'a list \<Rightarrow> error option list" where
  "reported conv xs = filter (\<lambda>e. e \<noteq> None) (map conv xs)"

section \<open>Queries to run the conversions on\<close>

text \<open>\<^verbatim>\<open>*pb.CompiledCursor\<close> is opaque to the package; in concrete runs it is a byte string.\<close>

type_synonym pb_CompiledCursor = string

text \<open>\<^verbatim>\<open>NewQuery("Person").Filter("age >=", v).Order("-age")\<close>, built in the empty store.\<close>

definition person_query :: "'v \<Rightarrow> Query \<times> 'v heap" where
  "person_query v =
     (let q0 = NewQuery ''Person'';
          (q1, h1) = Query_Filter q0 ''age >='' (Some v) empty_heap;
          (q2, h2) = Query_Order q1 ''-age'' h1
      in (q2, h2))"

text \<open>\<^verbatim>\<open>NewQuery("Person").Filter("age >=", 18).Order("")\<close>: the order has no property.\<close>

definition unordered_query :: "Query \<times> scalar heap" where
  "unordered_query =
     (let q0 = NewQuery ''Person'';
          (q1, h1) = Query_Filter q0 ''age >='' (Some (IntV 18)) empty_heap;
          (q2, h2) = Query_Order q1 [] h1
      in (q2, h2))"

text \<open>\<^verbatim>\<open>NewQuery("Person").Filter("", 18)\<close>.\<close>

definition empty_filter_query :: "Query \<times> scalar heap" where
  "empty_filter_query =
     (let q0 = NewQuery ''Person'';
          (q1, h1) = Query_Filter q0 [] (Some (IntV 18)) empty_heap
      in (q1, h1))"

text \<open>\<^verbatim>\<open>NewQuery("Person").Filter("a =", 1).Filter("b =", 2).Filter("c =", 3)\<close>.\<close>

definition three_filters :: "Query \<times> scalar heap" where
  "three_filters =
     (let q0 = NewQuery ''Person'';
          (q1, h1) = Query_Filter q0 ''a ='' (Some (IntV 1)) empty_heap;
          (q2, h2) = Query_Filter q1 ''b ='' (Some (IntV 2)) h1;
          (q3, h3) = Query_Filter q2 ''c ='' (Some (IntV 3)) h2
      in (q3, h3))"

section \<open>Key: equality\<close>

lemma chain_Some: "chain (Some k) \<noteq> []" "[] \<noteq> chain (Some k)"
  by (cases k; simp)+

lemma Eq_chain: "Eq a b = (chain a = chain b)"
  by (induction a b rule: Eq.induct) (auto simp: chain_Some)

lemma Equal_chain: "Equal a b = (chain a = chain b)"
  by (induction a b rule: Equal.induct) (auto simp: chain_Some)

lemma chain_inject: "(chain a = chain b) = (a = b)"
proof (induction a arbitrary: b rule: chain.induct)
  case 1
  then show ?case by (cases b rule: chain.cases) auto
next
  case (2 app ns par knd sid iid)
  then show ?case by (cases b rule: chain.cases) auto
qed

text \<open>
  C7. Key equality, in both variants, compares the two chains level by level from the
  leaf to the root on kind, stringID, intID, appID and namespace: it holds exactly
  when the chains agree, which is when the keys are structurally the same. Keys whose
  chains differ in length are not equal, and two keys that differ in their appID and
  in nothing else are not equal.
\<close>

theorem Key_Eq_structural:
  "Eq a b = (chain a = chain b) \<and> Equal a b = (chain a = chain b)
   \<and> Eq a b = (a = b) \<and> Equal a b = (a = b)
   \<and> (length (chain a) \<noteq> length (chain b) \<longrightarrow> \<not> Eq a b \<and> \<not> Equal a b)
   \<and> (appID x \<noteq> appID y \<longrightarrow> \<not> Eq (Some x) (Some y) \<and> \<not> Equal (Some x) (Some y))
   \<and> (app \<noteq> app' \<longrightarrow>
        \<not> Eq (Some (Key app ns par knd sid iid)) (Some (Key app' ns par knd sid iid))
        \<and> \<not> Equal (Some (Key app ns par knd sid iid)) (Some (Key app' ns par knd sid iid)))"
proof -
  have "length (chain a) \<noteq> length (chain b) \<Longrightarrow> chain a \<noteq> chain b" by auto
  moreover have "appID x \<noteq> appID y \<Longrightarrow> x \<noteq> y" by auto
  ultimately show ?thesis
    by (simp add: Eq_chain Equal_chain chain_inject)
qed

theorem Key_Eq_structural_witness:
  "''app-one'' \<noteq> ''app-two''
   \<and> \<not> Eq (Some (Key ''app-one'' ''ns'' None ''Person'' ''ann'' 0))
           (Some (Key ''app-two'' ''ns'' None ''Person'' ''ann'' 0))
   \<and> \<not> Equal (Some (Key ''app-one'' ''ns'' None ''Person'' ''ann'' 0))
              (Some (Key ''app-two'' ''ns'' None ''Person'' ''ann'' 0))
   \<and> length (chain (Some (Key ''app'' [] (Some (Key ''app'' [] None ''Person'' ''ann'' 0)) ''Pet'' [] 7)))
       \<noteq> length (chain (Some (Key ''app'' [] None ''Pet'' [] 7)))
   \<and> \<not> Eq (Some (Key ''app'' [] (Some (Key ''app'' [] None ''Person'' ''ann'' 0)) ''Pet'' [] 7))
           (Some (Key ''app'' [] None ''Pet'' [] 7))
   \<and> \<not> Equal (Some (Key ''app'' [] (Some (Key ''app'' [] None ''Person'' ''ann'' 0)) ''Pet'' [] 7))
              (Some (Key ''app'' [] None ''Pet'' [] 7))"
  using Key_Eq_structural [of "Some (Key ''app'' [] (Some (Key ''app'' [] None ''Person'' ''ann'' 0)) ''Pet'' [] 7)"
      "Some (Key ''app'' [] None ''Pet'' [] 7)"
      "Key ''app-one'' ''ns'' None ''Person'' ''ann'' 0" "Key ''app-two'' ''ns'' None ''Person'' ''ann'' 0"
      "''app-one''" "''app-two''" "''ns''" None "''Person''" "''ann''" 0]
  by simp

section \<open>Key: batch validation\<close>

lemma multiValid_invalid_iff: "multiValid_invalid key = (\<exists>k\<in>set key. \<not> valid k)"
  by (induction key) auto

lemma multiValid_fill_slots:
  "multiValid_fill (length pre) key (pre @ replicate (length key) None) = pre @ map slot key"
proof (induction key arbitrary: pre)
  case Nil
  then show ?case by simp
next
  case (Cons k key)
  have upd: "(pre @ replicate (length (k # key)) None)[length pre := Some ErrInvalidKey]
             = (pre @ [Some ErrInvalidKey]) @ replicate (length key) None"
    by (simp add: list_update_append)
  have same: "pre @ replicate (length (k # key)) None = (pre @ [None]) @ replicate (length key) None"
    by simp
  show ?case
  proof (cases "valid k")
    case True
    then show ?thesis
      using Cons.IH[of "pre @ [None]"] by (simp add: slot_def)
  next
    case False
    have "multiValid_fill (length pre) (k # key) (pre @ replicate (length (k # key)) None)
          = multiValid_fill (Suc (length pre)) key ((pre @ [Some ErrInvalidKey]) @ replicate (length key) None)"
      using False upd by simp
    then show ?thesis
      using Cons.IH[of "pre @ [Some ErrInvalidKey]"] False by (simp add: slot_def)
  qed
qed

text \<open>
  C9. \<^verbatim>\<open>multiValid\<close> returns \<^verbatim>\<open>nil\<close> when every key of the batch is valid. Otherwise it
  returns an \<^verbatim>\<open>ErrMulti\<close> with one slot per key, in order: the slot of an invalid key
  holds \<^verbatim>\<open>ErrInvalidKey\<close>, the slot of a valid key is empty.
\<close>

theorem multiValid_slots:
  "multiValid key =
     (if \<forall>k\<in>set key. valid k then None
      else Some (ErrMulti (map (\<lambda>k. if valid k then None else Some ErrInvalidKey) key)))
   \<and> (\<forall>slots. multiValid key = Some (ErrMulti slots) \<longrightarrow>
         length slots = length key
         \<and> (\<forall>i<length key. (slots ! i = Some ErrInvalidKey) = (\<not> valid (key ! i))
                            \<and> (slots ! i = None) = valid (key ! i)))"
proof -
  have fill: "multiValid_fill 0 key (replicate (length key) None) = map slot key"
    using multiValid_fill_slots[of "[]" key] by simp
  have m: "map slot key = map (\<lambda>k. if valid k then None else Some ErrInvalidKey) key"
    by (simp add: slot_def)
  have first: "multiValid key =
     (if \<forall>k\<in>set key. valid k then None
      else Some (ErrMulti (map (\<lambda>k. if valid k then None else Some ErrInvalidKey) key)))"
    using fill m by (simp add: multiValid_def multiValid_invalid_iff)
  show ?thesis
  proof (intro conjI allI impI)
    show "multiValid key =
     (if \<forall>k\<in>set key. valid k then None
      else Some (ErrMulti (map (\<lambda>k. if valid k then None else Some ErrInvalidKey) key)))"
      by (rule first)
  next
    fix slots assume "multiValid key = Some (ErrMulti slots)"
    with first have s: "slots = map (\<lambda>k. if valid k then None else Some ErrInvalidKey) key"
      by (auto split: if_splits)
    then show "length slots = length key" by simp
    fix i assume "i < length key"
    with s show "(slots ! i = Some ErrInvalidKey) = (\<not> valid (key ! i))" by simp
    from s \<open>i < length key\<close> show "(slots ! i = None) = valid (key ! i)" by simp
  qed
qed

theorem multiValid_slots_witness:
  "valid (Some (Key ''app'' [] None ''Person'' ''ann'' 0))
   \<and> multiValid [Some (Key ''app'' [] None ''Person'' ''ann'' 0)] = None
   \<and> multiValid [Some (Key ''app'' [] None ''Person'' ''ann'' 0), None,
                  Some (Key ''app'' [] None [] ''bob'' 0)]
       = Some (ErrMulti [None, Some ErrInvalidKey, Some ErrInvalidKey])
   \<and> length [None, Some ErrInvalidKey, Some ErrInvalidKey] = length [Some (Key ''app'' [] None ''Person'' ''ann'' 0), None,
                  Some (Key ''app'' [] None [] ''bob'' 0)]"
proof -
  have v: "valid (Some (Key ''app'' [] None ''Person'' ''ann'' 0))"
    by (simp add: valid_def)
  have n1: "\<not> valid None" by (simp add: valid_def)
  have n2: "\<not> valid (Some (Key ''app'' [] None [] ''bob'' 0))" by (simp add: valid_def)
  show ?thesis
    using v n1 n2
      multiValid_slots [of "[Some (Key ''app'' [] None ''Person'' ''ann'' 0)]"]
      multiValid_slots [of "[Some (Key ''app'' [] None ''Person'' ''ann'' 0), None,
                  Some (Key ''app'' [] None [] ''bob'' 0)]"]
    by simp
qed

section \<open>Key: the wire reference and back\<close>

lemma keyToProto_count_chain: "keyToProto_count k n = n + length (chain k)"
  by (induction k n rule: keyToProto_count.induct) auto

text \<open>The index loop fills the slots below \<open>m\<close> with the path of the chain.\<close>

lemma keyToProto_fill_path:
  "length (chain k) = m \<Longrightarrow> m \<le> length e \<Longrightarrow> keyToProto_fill k m e = path_of k @ drop m e"
proof (induction k m e rule: keyToProto_fill.induct)
  case (1 n e)
  then show ?case by simp
next
  case (2 app ns par knd sid iid n e)
  let ?K = "Key app ns par knd sid iid"
  from 2(2) obtain m where n: "n = Suc m" and m: "length (chain par) = m" by auto
  have "keyToProto_fill par m (e[m := path_element ?K])
        = path_of par @ drop m (e[m := path_element ?K])"
    using 2(1) 2(3) m n by simp
  moreover have "drop m (e[m := path_element ?K]) = path_element ?K # drop (Suc m) e"
    using 2(3) n by (simp add: Cons_nth_drop_Suc[symmetric])
  ultimately show ?case using n by simp
qed

lemma keyToProto_Path: "Path (keyToProto k) = Some \<lparr>Element = path_of (Some k)\<rparr>"
  using keyToProto_fill_path[of "Some k" "length (chain (Some k))"
          "replicate (length (chain (Some k))) unset_element"]
  by (simp add: keyToProto_def keyToProto_count_chain Let_def)

lemma keyToProto_App: "GetString (App (keyToProto k)) = appID k"
  by (simp add: keyToProto_def GetString_def Let_def)

lemma keyToProto_NameSpace: "GetString (NameSpace (keyToProto k)) = namespace k"
  by (simp add: keyToProto_def GetString_def Let_def)

lemma protoToKey_loop_append:
  "protoToKey_loop app ns k (es @ fs) =
     (case protoToKey_loop app ns k es of
        Inl err \<Rightarrow> Inl err
      | Inr k' \<Rightarrow> protoToKey_loop app ns k' fs)"
  by (induction es arbitrary: k) (auto simp: Let_def)

text \<open>A level with at most one id set is read back from its path element as it was.\<close>

lemma path_element_inverse:
  "\<not> (sid \<noteq> [] \<and> iid \<noteq> 0) \<Longrightarrow>
   Key app ns par (GetString (Type (path_element (Key app ns par knd sid iid))))
     (GetString (Name (path_element (Key app ns par knd sid iid))))
     (GetInt64 (Id_e (path_element (Key app ns par knd sid iid)))) = Key app ns par knd sid iid"
  by (auto simp: path_element_def GetString_def GetInt64_def Let_def)

lemma valid_parent:
  "valid (Some (Key app ns (Some p) knd sid iid)) \<Longrightarrow>
   valid (Some p) \<and> appID p = app \<and> namespace p = ns"
  by (auto simp: valid_def split: if_splits)

lemma valid_ids: "valid (Some (Key app ns par knd sid iid)) \<Longrightarrow> \<not> (sid \<noteq> [] \<and> iid \<noteq> 0)"
  by (auto simp: valid_def split: if_splits)

lemma protoToKey_loop_path:
  "valid (Some k) \<Longrightarrow>
   protoToKey_loop (appID k) (namespace k) None (path_of (Some k)) = Inr (Some k)"
proof (induction k)
  case (Key app ns par knd sid iid)
  note inv = path_element_inverse[OF valid_ids[OF Key.prems]]
  show ?case
  proof (cases par)
    case None
    then show ?thesis using Key.prems inv by (simp add: Let_def)
  next
    case (Some p)
    have vp: "valid (Some p)" "appID p = app" "namespace p = ns"
      using valid_parent Key.prems Some by blast+
    have "protoToKey_loop app ns None (path_of (Some p)) = Inr (Some p)"
      using Key.IH[of p] Some vp by simp
    then show ?thesis using Key.prems inv Some
      by (simp add: protoToKey_loop_append Let_def)
  qed
qed

lemma protoToKey_keyToProto: "valid (Some k) \<Longrightarrow> protoToKey (keyToProto k) = Inr (Some k)"
  using protoToKey_loop_path[of k]
  by (simp add: protoToKey_def keyToProto_Path keyToProto_App keyToProto_NameSpace Let_def)

subsection \<open>Stripping the padding and adding it again\<close>

lemma takeWhile_replicate:
  "takeWhile (\<lambda>x. x = c) xs = replicate (length (takeWhile (\<lambda>x. x = c) xs)) c"
  by (induction xs) auto

lemma TrimRight_trailing: "s = TrimRight s [c] @ replicate (trailing c s) c"
proof -
  have "rev s = takeWhile (\<lambda>x. x = c) (rev s) @ dropWhile (\<lambda>x. x = c) (rev s)" by simp
  then have "s = rev (dropWhile (\<lambda>x. x = c) (rev s)) @ rev (takeWhile (\<lambda>x. x = c) (rev s))"
    by (metis rev_append rev_rev_ident)
  moreover have "rev (takeWhile (\<lambda>x. x = c) (rev s)) = replicate (trailing c s) c"
    unfolding trailing_def using takeWhile_replicate[of c "rev s"] by (metis rev_replicate)
  ultimately show ?thesis by (simp add: TrimRight_def)
qed

lemma Repeat_single: "Repeat [c] n = replicate n c"
  by (induction n) (auto simp: Repeat_def)

lemma pad_to_four:
  assumes "(length t + n) mod 4 = 0" and "n < 4"
  shows "(if length t mod 4 \<noteq> 0 then t @ replicate (4 - length t mod 4) c else t)
         = t @ replicate n c"
proof (cases "n = 0")
  case True
  then show ?thesis using assms by simp
next
  case False
  then have "length t mod 4 = 4 - n" using assms by presburger
  then show ?thesis using assms False by simp
qed

lemma readd_padding:
  assumes "length s mod 4 = 0" and "trailing c s < 4"
  shows "(let t = TrimRight s [c]; m = length t mod 4
          in if m \<noteq> 0 then t @ Repeat [c] (4 - m) else t) = s"
proof -
  have len: "length s = length (TrimRight s [c]) + trailing c s"
    using TrimRight_trailing[of s c] by (metis length_append length_replicate)
  have "(if length (TrimRight s [c]) mod 4 \<noteq> 0
         then TrimRight s [c] @ replicate (4 - length (TrimRight s [c]) mod 4) c
         else TrimRight s [c]) = TrimRight s [c] @ replicate (trailing c s) c"
    by (rule pad_to_four) (use assms len in auto)
  also have "\<dots> = s" using TrimRight_trailing[of s c] by simp
  finally show ?thesis by (auto simp add: Let_def Repeat_single split: if_splits)
qed

text \<open>
  C1. Let \<open>k\<close> be a valid key (a well-formed chain of at least one level). If the
  protocol buffer library marshals the reference message of \<open>k\<close> to bytes \<open>b\<close> and
  unmarshals \<open>b\<close> to that message again, and base64 decodes what it encodes \<open>b\<close> to, a
  text of a length divisible by four with fewer than four padding characters, then
  \<^verbatim>\<open>Encode\<close> returns that text without its padding, and \<^verbatim>\<open>DecodeKey\<close> of it succeeds
  with the key \<open>k\<close> itself: the same kind, stringID, intID, appID and namespace at
  every level, and the same chain.
\<close>

theorem DecodeKey_Encode_roundtrip:
  assumes "valid (Some k)"
    and "Marshal c (keyToProto k) = Inr b"
    and "Unmarshal c b = Inr (keyToProto k)"
    and "DecodeString c (EncodeToString c b) = Inr b"
    and "length (EncodeToString c b) mod 4 = 0"
    and "trailing (CHR ''='') (EncodeToString c b) < 4"
  shows "Encode c (Some k) = Inr (TrimRight (EncodeToString c b) ''='')
         \<and> DecodeKey c (TrimRight (EncodeToString c b) ''='') = Inr (Some k)
         \<and> (\<forall>encoded k'. Encode c (Some k) = Inr encoded \<and> DecodeKey c encoded = Inr k'
              \<longrightarrow> k' = Some k \<and> chain k' = chain (Some k))"
proof -
  let ?s = "EncodeToString c b"
  have e: "Encode c (Some k) = Inr (TrimRight ?s ''='')"
    using assms(2) by (simp add: Encode_def)
  have d: "DecodeKey c (TrimRight ?s ''='') = Inr (Some k)"
    using readd_padding[OF assms(5,6)] assms(3,4) protoToKey_keyToProto[OF assms(1)]
    by (simp add: DecodeKey_def Let_def)
  from e d show ?thesis by auto
qed

theorem DecodeKey_Encode_roundtrip_witness:
  "valid (Some (Key ''app'' [] (Some (Key ''app'' [] None ''P'' ''r'' 0)) ''C'' [] 300))
   \<and> Encode wire_codec (Some (Key ''app'' [] (Some (Key ''app'' [] None ''P'' ''r'' 0)) ''C'' [] 300))
       = Inr ''agNhcHByEAsSAVAiAXIMCxIBQxisAgw''
   \<and> DecodeKey wire_codec ''agNhcHByEAsSAVAiAXIMCxIBQxisAgw''
       = Inr (Some (Key ''app'' [] (Some (Key ''app'' [] None ''P'' ''r'' 0)) ''C'' [] 300))"
proof -
  define k where "k = Key ''app'' [] (Some (Key ''app'' [] None ''P'' ''r'' 0)) ''C'' [] 300"
  define b where "b = map char_of [106::nat, 3, 97, 112, 112, 114, 16, 11, 18, 1, 80, 34, 1, 114,
    12, 11, 18, 1, 67, 24, 172, 2, 12]"
  have h1: "valid (Some k)" unfolding k_def by code_simp
  have h2: "Marshal wire_codec (keyToProto k) = Inr b" unfolding k_def b_def by code_simp
  have h3: "Unmarshal wire_codec b = Inr (keyToProto k)" unfolding k_def b_def by code_simp
  have h4: "DecodeString wire_codec (EncodeToString wire_codec b) = Inr b"
    unfolding b_def by code_simp
  have h5: "length (EncodeToString wire_codec b) mod 4 = 0" unfolding b_def by code_simp
  have h6: "trailing (CHR ''='') (EncodeToString wire_codec b) < 4" unfolding b_def by code_simp
  have e: "TrimRight (EncodeToString wire_codec b) ''='' = ''agNhcHByEAsSAVAiAXIMCxIBQxisAgw''"
    unfolding b_def by code_simp
  from DecodeKey_Encode_roundtrip[OF h1 h2 h3 h4 h5 h6] h1 e show ?thesis
    unfolding k_def by simp
qed

text \<open>
  C10. Whenever the input of \<^verbatim>\<open>DecodeKey\<close>, with its padding added again, is base64 that
  decodes to a reference message whose path has no element, \<^verbatim>\<open>DecodeKey\<close> returns the
  pair \<^verbatim>\<open>(nil, nil)\<close>: no key and no error. The witness is such an input.
\<close>

theorem DecodeKey_empty_path:
  assumes "DecodeString c (let m = length encoded mod 4
                           in if m \<noteq> 0 then encoded @ Repeat ''='' (4 - m) else encoded) = Inr b"
    and "Unmarshal c b = Inr r"
    and "Path r = Some p"
    and "Element p = []"
  shows "DecodeKey c encoded = Inr None"
  using assms by (simp add: DecodeKey_def protoToKey_def Let_def)

theorem DecodeKey_empty_path_witness:
  "DecodeString wire_codec ''agFhcgA='' = Inr (map char_of [106::nat, 1, 97, 114, 0])
   \<and> Unmarshal wire_codec (map char_of [106::nat, 1, 97, 114, 0])
       = Inr \<lparr>App = Some ''a'', NameSpace = None, Path = Some \<lparr>Element = []\<rparr>\<rparr>
   \<and> DecodeKey wire_codec ''agFhcgA'' = Inr None"
proof -
  have h1: "DecodeString wire_codec (let m = length ''agFhcgA'' mod 4
              in if m \<noteq> 0 then ''agFhcgA'' @ Repeat ''='' (4 - m) else ''agFhcgA'')
            = Inr (map char_of [106::nat, 1, 97, 114, 0])"
    by code_simp
  have h1': "DecodeString wire_codec ''agFhcgA='' = Inr (map char_of [106::nat, 1, 97, 114, 0])"
    by code_simp
  have h2: "Unmarshal wire_codec (map char_of [106::nat, 1, 97, 114, 0])
            = Inr \<lparr>App = Some ''a'', NameSpace = None, Path = Some \<lparr>Element = []\<rparr>\<rparr>"
    by code_simp
  have h3: "Path \<lparr>App = Some ''a'', NameSpace = None, Path = Some \<lparr>Element = []\<rparr>\<rparr>
            = Some \<lparr>Element = []\<rparr>" by simp
  have h4: "Element \<lparr>Element = []\<rparr> = ([] :: pb_Path_Element list)" by simp
  from DecodeKey_empty_path[OF h1 h2 h3 h4] h1' h2 show ?thesis by simp
qed

section \<open>QueryOptions: the range check\<close>

lemma sint_MaxInt32: "sint MaxInt32 = 2147483647"
  by (simp add: MaxInt32_def)

lemma validInt32_None: "(validInt32 v name = None) = (0 \<le> sint v \<and> sint v \<le> 2 ^ 31 - 1)"
  by (auto simp: validInt32_def word_sless_alt sint_MaxInt32)

text \<open>A value in the range is the same number as an \<^verbatim>\<open>int32\<close>.\<close>

lemma int32_unchanged:
  assumes "0 \<le> sint (v :: 64 word)" and "sint v \<le> 2 ^ 31 - 1"
  shows "sint (ucast v :: 32 word) = sint v"
proof -
  have "uint v = take_bit 64 (sint v)" by (simp add: uint_sint)
  also have "\<dots> = sint v" using assms by (intro take_bit_int_eq_self) auto
  finally have u: "uint v = sint v" .
  have "sint (ucast v :: 32 word) = signed_take_bit 31 (uint v)"
    by (simp add: signed_ucast_eq)
  also have "\<dots> = sint v" unfolding u using assms by (intro signed_take_bit_int_eq_self) auto
  finally show ?thesis .
qed

text \<open>
  C8. For every field name, \<^verbatim>\<open>validInt32\<close> returns an error for -1 and for 2^31 and no
  error for 0 and for 2^31 - 1. It returns no error exactly for the values from 0 to
  2^31 - 1, the negative-value error exactly for the negative ones and the overflow
  error exactly for those above 2^31 - 1. It returns no adjusted value: an accepted
  value is the same number as an \<^verbatim>\<open>int32\<close>.
\<close>

theorem validInt32_range:
  "validInt32 (- 1) name = Some (ErrorString (''datastore: negative value for '' @ name))
   \<and> validInt32 (2 ^ 31) name = Some (ErrorString (''datastore: value overflow for '' @ name))
   \<and> validInt32 0 name = None
   \<and> validInt32 (2 ^ 31 - 1) name = None
   \<and> (validInt32 v name = None) = (0 \<le> sint v \<and> sint v \<le> 2 ^ 31 - 1)
   \<and> (validInt32 v name = Some (ErrorString (''datastore: negative value for '' @ name)))
       = (sint v < 0)
   \<and> (validInt32 v name = Some (ErrorString (''datastore: value overflow for '' @ name)))
       = (2 ^ 31 - 1 < sint v)
   \<and> (validInt32 v name = None \<longrightarrow> sint (ucast v :: 32 word) = sint v)"
proof -
  have a: "validInt32 (- 1) name = Some (ErrorString (''datastore: negative value for '' @ name))"
    by (simp add: validInt32_def word_sless_alt)
  have b: "validInt32 (2 ^ 31) name = Some (ErrorString (''datastore: value overflow for '' @ name))"
    by (simp add: validInt32_def word_sless_alt sint_MaxInt32)
  have c: "validInt32 0 name = None"
    by (simp add: validInt32_def word_sless_alt sint_MaxInt32)
  have d: "validInt32 (2 ^ 31 - 1) name = None"
    by (simp add: validInt32_def word_sless_alt sint_MaxInt32)
  have e: "(validInt32 v name = Some (ErrorString (''datastore: negative value for '' @ name)))
       = (sint v < 0)"
    by (auto simp: validInt32_def word_sless_alt sint_MaxInt32)
  have f: "(validInt32 v name = Some (ErrorString (''datastore: value overflow for '' @ name)))
       = (2 ^ 31 - 1 < sint v)"
    by (auto simp: validInt32_def word_sless_alt sint_MaxInt32)
  have g: "validInt32 v name = None \<longrightarrow> sint (ucast v :: 32 word) = sint v"
    using int32_unchanged[of v] by (simp add: validInt32_None)
  from a b c d e f g validInt32_None[of v name] show ?thesis by blast
qed

theorem validInt32_range_witness:
  "validInt32 2147483647 ''limit'' = None
   \<and> sint (ucast (2147483647 :: 64 word) :: 32 word) = sint (2147483647 :: 64 word)
   \<and> validInt32 2147483648 ''limit'' = Some (ErrorString ''datastore: value overflow for limit'')"
  using validInt32_range [of "''limit''" 2147483647]
  by simp

section \<open>queryFilter: operators\<close>




subsection \<open>The operators the parser can produce\<close>






subsection \<open>The conversion of a parsed filter\<close>


lemma TrimSpace_age_ge: "TrimSpace ''age >='' = ''age >=''"
  by code_simp

lemma TrimSpace_ge: "TrimSpace '' >='' = ''>=''"
  by code_simp

lemma parse_age_ge:
  "queryFilter_parse \<lparr>f_filter = ''age >='', f_value = v\<rparr> = Inr (''age'', ''>='')"
  by (simp add: queryFilter_parse_def TrimSpace_age_ge TrimSpace_ge TrimRight_def Let_def)




text \<open>
  The claim C6 as stated, with \<^verbatim>\<open>!=\<close>, \<^verbatim>\<open>IN\<close> and \<^verbatim>\<open>OR\<close> among the operators that make the
  conversion fail with an error naming them, fails. The filter \<^verbatim>\<open>age !=\<close> parses to
  the property \<^verbatim>\<open>age !\<close> and the operator \<^verbatim>\<open>=\<close>, and the filter \<^verbatim>\<open>a OR b =\<close> to the
  property \<^verbatim>\<open>a OR b\<close> and the operator \<^verbatim>\<open>=\<close>: both convert to EQUAL with no error. The
  filter \<^verbatim>\<open>age IN\<close> fails, and the operator its error names is the empty one.
\<close>

lemma parse_not_equal:
  "queryFilter_parse \<lparr>f_filter = ''age !='', f_value = v\<rparr> = Inr (''age !'', ''='')"
  by code_simp


section \<open>Query.toProto and QueryOptions.toProto\<close>

lemma reported_Cons:
  "reported conv (x # xs) = (case conv x of None \<Rightarrow> [] | Some e \<Rightarrow> [Some e]) @ reported conv xs"
  by (simp add: reported_def split: option.splits)

lemma reported_Nil: "reported conv [] = []"
  by (simp add: reported_def)

lemma reported_empty: "(reported conv xs = []) = (\<forall>x\<in>set xs. conv x = None)"
  by (induction xs) (auto simp: reported_Cons reported_Nil split: option.splits)

lemma toProto_filters_eq:
  "toProto_filters vtp fs em =
     (map (\<lambda>f. fst (queryFilter_toProto vtp f new_Query_Filter)) fs,
      em @ reported (\<lambda>f. snd (queryFilter_toProto vtp f new_Query_Filter)) fs)"
  by (induction fs arbitrary: em)
     (auto simp: reported_Cons reported_Nil Let_def split: prod.splits option.splits)

lemma toProto_orders_eq:
  "toProto_orders os em =
     (map (\<lambda>x. fst (queryOrder_toProto x new_Query_Order)) os,
      em @ reported (\<lambda>x. snd (queryOrder_toProto x new_Query_Order)) os)"
  by (induction os arbitrary: em)
     (auto simp: reported_Cons reported_Nil Let_def split: prod.splits option.splits)

lemma elems_nil: "array s = None \<Longrightarrow> elems h s = []"
  by (simp add: elems_def)

lemma Query_toProto_fst:
  "fst (Query_toProto vtp h q dst) =
     dst\<lparr>Kind := (if q_kind q \<noteq> [] then Some (q_kind q) else Kind dst),
         Ancestor := (case q_ancestor q of None \<Rightarrow> Ancestor dst | Some a \<Rightarrow> Some (keyToProto a)),
         Filter := (if array (q_filter q) \<noteq> None
                    then map (\<lambda>f. fst (queryFilter_toProto vtp f new_Query_Filter)) (filter_list h q)
                    else Filter dst),
         Order := (if array (q_order q) \<noteq> None
                   then map (\<lambda>x. fst (queryOrder_toProto x new_Query_Order)) (order_list h q)
                   else Order dst)\<rparr>"
  by (cases "q_ancestor q")
     (simp_all add: Query_toProto_def toProto_filters_eq toProto_orders_eq Key_toProto_def Let_def)

lemma Query_toProto_snd:
  "snd (Query_toProto vtp h q dst) =
     (let es = (if q_kind q \<noteq> [] then [] else [Some (ErrorString ''datastore: empty query kind'')])
               @ reported (\<lambda>f. snd (queryFilter_toProto vtp f new_Query_Filter)) (filter_list h q)
               @ reported (\<lambda>x. snd (queryOrder_toProto x new_Query_Order)) (order_list h q)
      in if es = [] then None else Some (ErrMulti es))"
  by (simp add: Query_toProto_def toProto_filters_eq toProto_orders_eq Let_def
      filter_list_def order_list_def elems_nil reported_Nil)

lemma QueryOptions_toProto_fst:
  "fst (QueryOptions_toProto o' dst) =
     dst\<lparr>Limit := (if validInt32 (limit o') ''limit'' = None then Some (ucast (limit o'))
                   else Limit dst),
         Offset := (if validInt32 (offset o') ''offset'' = None then Some (ucast (offset o'))
                    else Offset dst),
         KeysOnly := Some (keysOnly o'),
         Compile := Some (compile o'),
         CompiledCursor := (case startCursor o' of None \<Rightarrow> CompiledCursor dst
                            | Some cur \<Rightarrow> compiledCursor cur),
         EndCompiledCursor := (case endCursor o' of None \<Rightarrow> EndCompiledCursor dst
                               | Some cur \<Rightarrow> compiledCursor cur)\<rparr>"
  by (cases "validInt32 (limit o') ''limit''"; cases "validInt32 (offset o') ''offset''";
      cases "startCursor o'"; cases "endCursor o'")
     (simp_all add: QueryOptions_toProto_def Let_def)

lemma QueryOptions_toProto_snd:
  "snd (QueryOptions_toProto o' dst) =
     (let es = reported (\<lambda>(v, name). validInt32 v name)
                 [(limit o', ''limit''), (offset o', ''offset'')]
      in if es = [] then None else Some (ErrMulti es))"
  by (cases "validInt32 (limit o') ''limit''"; cases "validInt32 (offset o') ''offset''")
     (simp_all add: QueryOptions_toProto_def Let_def reported_def)

subsection \<open>The Person query\<close>

lemma person_query_eq:
  "person_query v =
     (\<lparr>q_kind = ''Person'', q_ancestor = None, q_filter = Slice (Some 0) 1 1,
        q_order = Slice (Some 0) 1 1\<rparr>,
      \<lparr>filters = [[\<lparr>f_filter = ''age >='', f_value = Some v\<rparr>]],
        orders = [[''-age'']]\<rparr>)"
  by (simp add: person_query_def NewQuery_def Query_Filter_def Query_Order_def append1_def
      nil_slice_def growslice_def empty_heap_def Let_def)

lemma parse_minus_age: "queryOrder_parse ''-age'' = (''age'', ''-'')"
  by code_simp

lemma queryFilter_toProto_age_ge:
  "snd (vtp ''age'' (Some v) False) = [] \<Longrightarrow>
   queryFilter_toProto vtp \<lparr>f_filter = ''age >='', f_value = Some v\<rparr> new_Query_Filter
     = (\<lparr>Op = Some GREATER_THAN_OR_EQUAL, Property = [fst (vtp ''age'' (Some v) False)]\<rparr>, None)"
  by (cases "vtp ''age'' (Some v) False")
     (simp add: queryFilter_toProto_def parse_age_ge operatorToProto_def new_Query_Filter_def
        Let_def)

lemma queryOrder_toProto_minus_age:
  "queryOrder_toProto ''-age'' new_Query_Order
     = (\<lparr>Property_o = Some ''age'', Direction = Some DESCENDING\<rparr>, None)"
  by (simp add: queryOrder_toProto_def parse_minus_age orderDirectionToProto_def
        new_Query_Order_def)

text \<open>
  C5 (amended). Let the value of the filter be one that \<^verbatim>\<open>%#v\<close> prints as \<^verbatim>\<open>18\<close> and that
  the value conversion accepts. The query built with kind \<^verbatim>\<open>Person\<close>, filter \<^verbatim>\<open>age >=\<close>
  and order \<^verbatim>\<open>-age\<close> converts without error to a wire query with exactly one filter,
  of operator GREATER_THAN_OR_EQUAL, and exactly one order, on property \<^verbatim>\<open>age\<close> with
  direction DESCENDING. Its display string is
  \<^verbatim>\<open>SELECT * FROM Person WHERE age >=18 ORDER BY age DESC\<close>: the filter text is printed
  as it was given, with its space.
\<close>

theorem person_query_converts:
  assumes "snd (valueToProto ''age'' (Some v) False) = []"
    and "goSyntax (Some v) = ''18''"
  shows "Query_toProto valueToProto (snd (person_query v)) (fst (person_query v)) dst
     = (dst\<lparr>Kind := Some ''Person'',
            Filter := [\<lparr>Op = Some GREATER_THAN_OR_EQUAL,
                        Property = [fst (valueToProto ''age'' (Some v) False)]\<rparr>],
            Order := [\<lparr>Property_o = Some ''age'', Direction = Some DESCENDING\<rparr>]\<rparr>, None)
   \<and> Query_String c goSyntax (snd (person_query v)) (fst (person_query v))
       = Inr ''SELECT * FROM Person WHERE age >=18 ORDER BY age DESC''"
proof -
  note f = queryFilter_toProto_age_ge[of valueToProto v, OF assms(1)]
  note x = queryOrder_toProto_minus_age
  have os: "queryOrder_String ''-age'' = ''age DESC''"
    by (simp add: queryOrder_String_def parse_minus_age)
  have p: "Query_toProto valueToProto (snd (person_query v)) (fst (person_query v)) dst
     = (dst\<lparr>Kind := Some ''Person'',
            Filter := [\<lparr>Op = Some GREATER_THAN_OR_EQUAL,
                        Property = [fst (valueToProto ''age'' (Some v) False)]\<rparr>],
            Order := [\<lparr>Property_o = Some ''age'', Direction = Some DESCENDING\<rparr>]\<rparr>, None)"
    by (simp add: person_query_eq Query_toProto_def filter_list_def order_list_def elems_def f x
        Let_def)
  have s: "Query_String c goSyntax (snd (person_query v)) (fst (person_query v))
       = Inr ''SELECT * FROM Person WHERE age >=18 ORDER BY age DESC''"
    using assms(2)
    by (simp add: person_query_eq Query_String_def filter_list_def order_list_def elems_def
        queryFilter_String_def os Let_def)
  from p s show ?thesis by simp
qed

theorem person_query_converts_witness:
  "snd (valueToProto_scalar ''age'' (Some (IntV 18)) False) = []
   \<and> goSyntax_scalar (Some (IntV 18)) = ''18''
   \<and> Query_toProto valueToProto_scalar (snd (person_query (IntV 18))) (fst (person_query (IntV 18)))
       (new_Query :: (pb_Property option, pb_CompiledCursor) pb_Query)
     = (\<lparr>Kind = Some ''Person'', Ancestor = None,
          Filter = [\<lparr>Op = Some GREATER_THAN_OR_EQUAL,
                     Property = [Some \<lparr>Name_p = Some ''age'', Value_p = Int64Value 18,
                                        Multiple = Some False\<rparr>]\<rparr>],
          Order = [\<lparr>Property_o = Some ''age'', Direction = Some DESCENDING\<rparr>],
          Limit = None, Offset = None, KeysOnly = None, Compile = None,
          CompiledCursor = None, EndCompiledCursor = None\<rparr>, None)
   \<and> Query_String wire_codec goSyntax_scalar (snd (person_query (IntV 18))) (fst (person_query (IntV 18)))
       = Inr ''SELECT * FROM Person WHERE age >=18 ORDER BY age DESC''"
proof -
  have h1: "snd (valueToProto_scalar ''age'' (Some (IntV 18)) False) = []"
    by (simp add: valueToProto_scalar_def)
  have h2: "goSyntax_scalar (Some (IntV 18)) = ''18''"
    by code_simp
  have v: "fst (valueToProto_scalar ''age'' (Some (IntV 18)) False)
           = Some \<lparr>Name_p = Some ''age'', Value_p = Int64Value 18, Multiple = Some False\<rparr>"
    by (simp add: valueToProto_scalar_def)
  from person_query_converts[of valueToProto_scalar "IntV 18" goSyntax_scalar
         "new_Query :: (pb_Property option, pb_CompiledCursor) pb_Query" wire_codec]
    h1 h2 v
  show ?thesis by (simp add: new_Query_def)
qed

text \<open>
  The display string of C5 as the claim has it, without the space, is not what
  \<^verbatim>\<open>Query.String\<close> returns.
\<close>

theorem person_query_String_counterexample:
  "Query_String wire_codec goSyntax_scalar (snd (person_query (IntV 18))) (fst (person_query (IntV 18)))
     \<noteq> Inr ''SELECT * FROM Person WHERE age>=18 ORDER BY age DESC''"
  unfolding person_query_eq by code_simp

subsection \<open>What the conversions write and what they report\<close>

text \<open>
  C2 (amended). \<^verbatim>\<open>Query.toProto\<close> always writes the destination: the kind when it is not
  empty, the ancestor when it is set, and one message per filter and per order, which
  for a failed conversion holds what that conversion wrote before it failed. It
  returns \<^verbatim>\<open>nil\<close> exactly when the kind is not empty and every filter and every order
  converts, and otherwise an \<^verbatim>\<open>ErrMulti\<close> of all the faults in order. \<^verbatim>\<open>QueryOptions.toProto\<close>
  writes limit and offset when they are valid, and always keysOnly, compile and the
  cursors that are set; it returns \<^verbatim>\<open>nil\<close> exactly when limit and offset are valid, and
  otherwise an \<^verbatim>\<open>ErrMulti\<close> of their errors.
\<close>

theorem toProto_writes_and_reports:
  "fst (Query_toProto vtp h q dst) =
     dst\<lparr>Kind := (if q_kind q \<noteq> [] then Some (q_kind q) else Kind dst),
         Ancestor := (case q_ancestor q of None \<Rightarrow> Ancestor dst | Some a \<Rightarrow> Some (keyToProto a)),
         Filter := (if array (q_filter q) \<noteq> None
                    then map (\<lambda>f. fst (queryFilter_toProto vtp f new_Query_Filter)) (filter_list h q)
                    else Filter dst),
         Order := (if array (q_order q) \<noteq> None
                   then map (\<lambda>x. fst (queryOrder_toProto x new_Query_Order)) (order_list h q)
                   else Order dst)\<rparr>
   \<and> snd (Query_toProto vtp h q dst) =
     (let es = (if q_kind q \<noteq> [] then [] else [Some (ErrorString ''datastore: empty query kind'')])
               @ reported (\<lambda>f. snd (queryFilter_toProto vtp f new_Query_Filter)) (filter_list h q)
               @ reported (\<lambda>x. snd (queryOrder_toProto x new_Query_Order)) (order_list h q)
      in if es = [] then None else Some (ErrMulti es))
   \<and> (snd (Query_toProto vtp h q dst) = None) =
     (q_kind q \<noteq> []
      \<and> (\<forall>f\<in>set (filter_list h q). snd (queryFilter_toProto vtp f new_Query_Filter) = None)
      \<and> (\<forall>x\<in>set (order_list h q). snd (queryOrder_toProto x new_Query_Order) = None))
   \<and> fst (QueryOptions_toProto o' dst') =
     dst'\<lparr>Limit := (if validInt32 (limit o') ''limit'' = None then Some (ucast (limit o'))
                    else Limit dst'),
          Offset := (if validInt32 (offset o') ''offset'' = None then Some (ucast (offset o'))
                     else Offset dst'),
          KeysOnly := Some (keysOnly o'),
          Compile := Some (compile o'),
          CompiledCursor := (case startCursor o' of None \<Rightarrow> CompiledCursor dst'
                             | Some cur \<Rightarrow> compiledCursor cur),
          EndCompiledCursor := (case endCursor o' of None \<Rightarrow> EndCompiledCursor dst'
                                | Some cur \<Rightarrow> compiledCursor cur)\<rparr>
   \<and> snd (QueryOptions_toProto o' dst') =
     (let es = reported (\<lambda>(v, name). validInt32 v name)
                 [(limit o', ''limit''), (offset o', ''offset'')]
      in if es = [] then None else Some (ErrMulti es))
   \<and> (snd (QueryOptions_toProto o' dst') = None) =
     (validInt32 (limit o') ''limit'' = None \<and> validInt32 (offset o') ''offset'' = None)"
proof -
  have q3: "(snd (Query_toProto vtp h q dst) = None) =
     (q_kind q \<noteq> []
      \<and> (\<forall>f\<in>set (filter_list h q). snd (queryFilter_toProto vtp f new_Query_Filter) = None)
      \<and> (\<forall>x\<in>set (order_list h q). snd (queryOrder_toProto x new_Query_Order) = None))"
    by (simp add: Query_toProto_snd Let_def reported_empty)
  have o3: "(snd (QueryOptions_toProto o' dst') = None) =
     (validInt32 (limit o') ''limit'' = None \<and> validInt32 (offset o') ''offset'' = None)"
    by (simp add: QueryOptions_toProto_snd Let_def reported_empty)
  show ?thesis
    using Query_toProto_fst[of vtp h q dst] Query_toProto_snd[of vtp h q dst] q3
      QueryOptions_toProto_fst[of o' dst'] QueryOptions_toProto_snd[of o' dst'] o3
    by blast
qed

theorem toProto_writes_and_reports_witness:
  "q_kind (fst (person_query (IntV 18))) \<noteq> []
   \<and> snd (queryFilter_toProto valueToProto_scalar
            \<lparr>f_filter = ''age >='', f_value = Some (IntV 18)\<rparr> new_Query_Filter) = None
   \<and> snd (queryOrder_toProto ''-age'' new_Query_Order) = None
   \<and> snd (Query_toProto valueToProto_scalar (snd (person_query (IntV 18)))
            (fst (person_query (IntV 18)))
            (new_Query :: (pb_Property option, pb_CompiledCursor) pb_Query)) = None
   \<and> validInt32 10 ''limit'' = None
   \<and> validInt32 5 ''offset'' = None
   \<and> snd (QueryOptions_toProto (NewQueryOptions 10 5)
            (new_Query :: (pb_Property option, pb_CompiledCursor) pb_Query)) = None"
proof -
  have v: "snd (valueToProto_scalar ''age'' (Some (IntV 18)) False) = []"
    by (simp add: valueToProto_scalar_def)
  have k: "q_kind (fst (person_query (IntV 18))) \<noteq> []"
    by (simp add: person_query_eq)
  have fl: "filter_list (snd (person_query (IntV 18))) (fst (person_query (IntV 18)))
            = [\<lparr>f_filter = ''age >='', f_value = Some (IntV 18)\<rparr>]"
    by (simp add: person_query_eq filter_list_def elems_def)
  have ol: "order_list (snd (person_query (IntV 18))) (fst (person_query (IntV 18))) = [''-age'']"
    by (simp add: person_query_eq order_list_def elems_def)
  have f: "snd (queryFilter_toProto valueToProto_scalar
            \<lparr>f_filter = ''age >='', f_value = Some (IntV 18)\<rparr> new_Query_Filter) = None"
    using queryFilter_toProto_age_ge[of valueToProto_scalar "IntV 18"] v by simp
  have x: "snd (queryOrder_toProto ''-age'' new_Query_Order) = None"
    by (simp add: queryOrder_toProto_minus_age)
  have l: "validInt32 10 ''limit'' = None" by (simp add: validInt32_None)
  have m: "validInt32 5 ''offset'' = None" by (simp add: validInt32_None)
  note T = toProto_writes_and_reports [of valueToProto_scalar "snd (person_query (IntV 18))"
        "fst (person_query (IntV 18))" "new_Query :: (pb_Property option, pb_CompiledCursor) pb_Query"
        "NewQueryOptions 10 5" "new_Query :: (pb_Property option, pb_CompiledCursor) pb_Query"]
  have a: "snd (Query_toProto valueToProto_scalar (snd (person_query (IntV 18)))
            (fst (person_query (IntV 18)))
            (new_Query :: (pb_Property option, pb_CompiledCursor) pb_Query)) = None"
    using T[THEN conjunct2, THEN conjunct2, THEN conjunct1] k fl ol f x by simp
  have b: "snd (QueryOptions_toProto (NewQueryOptions 10 5)
            (new_Query :: (pb_Property option, pb_CompiledCursor) pb_Query)) = None"
    using T[THEN conjunct2, THEN conjunct2, THEN conjunct2, THEN conjunct2, THEN conjunct2] l m
    by (simp add: NewQueryOptions_def)
  from k f x a l m b show ?thesis by simp
qed

text \<open>
  The claim C2 as stated fails. The query with an order without property reports an
  error, and yet the destination holds its kind, its converted filter and a slot for
  the order; the options with limit -1 report an error, and yet the destination holds
  offset, keysOnly and compile.
\<close>

theorem toProto_partial_counterexample:
  "Query_toProto valueToProto_scalar (snd unordered_query) (fst unordered_query)
       (new_Query :: (pb_Property option, pb_CompiledCursor) pb_Query)
     = (\<lparr>Kind = Some ''Person'', Ancestor = None,
          Filter = [\<lparr>Op = Some GREATER_THAN_OR_EQUAL,
                     Property = [Some \<lparr>Name_p = Some ''age'', Value_p = Int64Value 18,
                                        Multiple = Some False\<rparr>]\<rparr>],
          Order = [\<lparr>Property_o = None, Direction = None\<rparr>],
          Limit = None, Offset = None, KeysOnly = None, Compile = None,
          CompiledCursor = None, EndCompiledCursor = None\<rparr>,
        Some (ErrMulti [Some (ErrorString ''datastore: empty query order property'')]))
   \<and> QueryOptions_toProto (NewQueryOptions (- 1) 5)
        (new_Query :: (pb_Property option, pb_CompiledCursor) pb_Query)
     = (\<lparr>Kind = None, Ancestor = None, Filter = [], Order = [],
          Limit = None, Offset = Some 5, KeysOnly = Some False, Compile = Some False,
          CompiledCursor = None, EndCompiledCursor = None\<rparr>,
        Some (ErrMulti [Some (ErrorString ''datastore: negative value for limit'')]))"
  by code_simp

subsection \<open>An empty filter and a negative limit\<close>

lemma TrimSpace_Nil: "TrimSpace [] = []"
  by code_simp

lemma queryFilter_parse_Nil:
  "queryFilter_parse \<lparr>f_filter = [], f_value = v\<rparr>
     = Inl (ErrorString ''datastore: invalid query filter: '')"
  by (simp add: queryFilter_parse_def TrimSpace_Nil)

text \<open>
  C3 (amended). Converting a query of non-empty kind whose only filter is the empty
  string, and which has no order, reports an \<^verbatim>\<open>ErrMulti\<close> with exactly one error, the
  invalid-query-filter error. Converting options with limit -1 and a valid offset
  reports an \<^verbatim>\<open>ErrMulti\<close> of its own with exactly one error, the negative-limit error.
  Each conversion has its accumulator; the two errors are not in one.
\<close>

theorem empty_filter_negative_limit:
  assumes "q_kind q \<noteq> []"
    and "filter_list h q = [\<lparr>f_filter = [], f_value = v\<rparr>]"
    and "order_list h q = []"
    and "limit o' = - 1"
    and "validInt32 (offset o') ''offset'' = None"
  shows "snd (Query_toProto vtp h q dst)
           = Some (ErrMulti [Some (ErrorString ''datastore: invalid query filter: '')])
       \<and> snd (QueryOptions_toProto o' dst')
           = Some (ErrMulti [Some (ErrorString ''datastore: negative value for limit'')])"
proof -
  have f: "snd (queryFilter_toProto vtp \<lparr>f_filter = [], f_value = v\<rparr> new_Query_Filter)
           = Some (ErrorString ''datastore: invalid query filter: '')"
    by (simp add: queryFilter_toProto_def queryFilter_parse_Nil)
  have l: "validInt32 (limit o') ''limit'' = Some (ErrorString ''datastore: negative value for limit'')"
    using assms(4) by (simp add: validInt32_def word_sless_alt)
  have a: "snd (Query_toProto vtp h q dst)
           = Some (ErrMulti [Some (ErrorString ''datastore: invalid query filter: '')])"
    using assms(1,2,3) f by (simp add: Query_toProto_snd Let_def reported_def)
  have b: "snd (QueryOptions_toProto o' dst')
           = Some (ErrMulti [Some (ErrorString ''datastore: negative value for limit'')])"
    using assms(5) l by (simp add: QueryOptions_toProto_snd Let_def reported_def)
  from a b show ?thesis by simp
qed

lemma empty_filter_query_eq:
  "empty_filter_query =
     (\<lparr>q_kind = ''Person'', q_ancestor = None, q_filter = Slice (Some 0) 1 1,
        q_order = Slice None 0 0\<rparr>,
      \<lparr>filters = [[\<lparr>f_filter = [], f_value = Some (IntV 18)\<rparr>]], orders = []\<rparr>)"
  by (simp add: empty_filter_query_def NewQuery_def Query_Filter_def append1_def
      nil_slice_def growslice_def empty_heap_def Let_def)

theorem empty_filter_negative_limit_witness:
  "q_kind (fst empty_filter_query) \<noteq> []
   \<and> filter_list (snd empty_filter_query) (fst empty_filter_query)
       = [\<lparr>f_filter = [], f_value = Some (IntV 18)\<rparr>]
   \<and> order_list (snd empty_filter_query) (fst empty_filter_query) = []
   \<and> limit (NewQueryOptions (- 1) 20 :: pb_CompiledCursor QueryOptions) = - 1
   \<and> validInt32 (offset (NewQueryOptions (- 1) 20 :: pb_CompiledCursor QueryOptions)) ''offset'' = None
   \<and> snd (Query_toProto valueToProto_scalar (snd empty_filter_query) (fst empty_filter_query)
            (new_Query :: (pb_Property option, pb_CompiledCursor) pb_Query))
       = Some (ErrMulti [Some (ErrorString ''datastore: invalid query filter: '')])
   \<and> snd (QueryOptions_toProto (NewQueryOptions (- 1) 20)
            (new_Query :: (pb_Property option, pb_CompiledCursor) pb_Query))
       = Some (ErrMulti [Some (ErrorString ''datastore: negative value for limit'')])"
proof -
  have h1: "q_kind (fst empty_filter_query) \<noteq> []" by (simp add: empty_filter_query_eq)
  have h2: "filter_list (snd empty_filter_query) (fst empty_filter_query)
       = [\<lparr>f_filter = [], f_value = Some (IntV 18)\<rparr>]"
    by (simp add: empty_filter_query_eq filter_list_def elems_def)
  have h3: "order_list (snd empty_filter_query) (fst empty_filter_query) = []"
    by (simp add: empty_filter_query_eq order_list_def elems_def)
  have h4: "limit (NewQueryOptions (- 1) 20 :: pb_CompiledCursor QueryOptions) = - 1"
    by (simp add: NewQueryOptions_def)
  have h5: "validInt32 (offset (NewQueryOptions (- 1) 20 :: pb_CompiledCursor QueryOptions)) ''offset'' = None"
    by (simp add: NewQueryOptions_def validInt32_None)
  from empty_filter_negative_limit[OF h1 h2 h3 h4 h5, of valueToProto_scalar
      "new_Query :: (pb_Property option, pb_CompiledCursor) pb_Query"
      "new_Query :: (pb_Property option, pb_CompiledCursor) pb_Query"]
    h1 h2 h3 h4 h5
  show ?thesis by simp
qed

text \<open>
  The claim C3 as stated fails: run one after the other on the same destination, the
  conversion of the query reports one error, which is not the empty-property error,
  and the conversion of the options reports one error; no \<^verbatim>\<open>ErrMulti\<close> holds two.
\<close>

theorem separate_accumulators_counterexample:
  "snd (Query_toProto valueToProto_scalar (snd empty_filter_query) (fst empty_filter_query)
          (new_Query :: (pb_Property option, pb_CompiledCursor) pb_Query))
     = Some (ErrMulti [Some (ErrorString ''datastore: invalid query filter: '')])
   \<and> snd (QueryOptions_toProto (NewQueryOptions (- 1) 0)
          (fst (Query_toProto valueToProto_scalar (snd empty_filter_query) (fst empty_filter_query)
             (new_Query :: (pb_Property option, pb_CompiledCursor) pb_Query))))
     = Some (ErrMulti [Some (ErrorString ''datastore: negative value for limit'')])"
  by code_simp

section \<open>The builders and the arrays they share\<close>

lemma Query_Kind_store: "snd (Query_Kind q kind' h) = h"
  by (simp add: Query_Kind_def)

lemma Query_Ancestor_store: "snd (Query_Ancestor q ancestor h) = h"
  by (simp add: Query_Ancestor_def)

text \<open>
  A filter added to a query whose slice has spare capacity is written into the array
  the query shares with every other query built from it.
\<close>

lemma Query_Filter_in_place:
  assumes "array (q_filter q) = Some a" and "a < length (filters h)"
    and "len (q_filter q) < cap (q_filter q)"
  shows "Query_Filter q filterStr v h =
           (q\<lparr>q_filter := Slice (Some a) (len (q_filter q) + 1) (cap (q_filter q))\<rparr>,
            h\<lparr>filters := (filters h)[a := (filters h ! a)[len (q_filter q) :=
                                             \<lparr>f_filter = filterStr, f_value = v\<rparr>]]\<rparr>)"
  using assms by (simp add: Query_Filter_def append1_def Let_def)

lemma take_Suc_update: "n < length xs \<Longrightarrow> take (Suc n) (xs[n := x]) = take n xs @ [x]"
  by (simp add: take_Suc_conv_app_nth)

text \<open>
  Two filters added, one after the other, to the same query with spare capacity: the
  second call replaces what the first one added, also in the query the first call
  returned.
\<close>

lemma Query_Filter_sibling:
  assumes "array (q_filter q) = Some a" and "a < length (filters h)"
    and "len (q_filter q) < cap (q_filter q)"
    and "length (filters h ! a) = cap (q_filter q)"
    and "Query_Filter q s1 v1 h = (q1, h1)"
    and "Query_Filter q s2 v2 h1 = (q2, h2)"
  shows "filter_list h1 q1 = filter_list h q @ [\<lparr>f_filter = s1, f_value = v1\<rparr>]
       \<and> filter_list h2 q1 = filter_list h q @ [\<lparr>f_filter = s2, f_value = v2\<rparr>]
       \<and> q_filter q2 = q_filter q1"
proof -
  let ?n = "len (q_filter q)" and ?arr = "filters h ! a"
  have n: "?n < length ?arr" using assms(3,4) by simp
  from assms(5) Query_Filter_in_place[OF assms(1,2,3), of s1 v1]
  have q1: "q1 = q\<lparr>q_filter := Slice (Some a) (?n + 1) (cap (q_filter q))\<rparr>"
    and h1: "h1 = h\<lparr>filters := (filters h)[a := ?arr[?n := \<lparr>f_filter = s1, f_value = v1\<rparr>]]\<rparr>"
    by simp_all
  have a1: "a < length (filters h1)" using assms(2) h1 by simp
  from assms(6) Query_Filter_in_place[OF assms(1) a1 assms(3), of s2 v2]
  have q2: "q2 = q\<lparr>q_filter := Slice (Some a) (?n + 1) (cap (q_filter q))\<rparr>"
    and h2: "h2 = h1\<lparr>filters := (filters h1)[a := (filters h1 ! a)[?n := \<lparr>f_filter = s2, f_value = v2\<rparr>]]\<rparr>"
    by simp_all
  have l0: "filter_list h q = take ?n ?arr"
    using assms(1,2) by (simp add: filter_list_def elems_def)
  have l1: "filter_list h1 q1 = take ?n ?arr @ [\<lparr>f_filter = s1, f_value = v1\<rparr>]"
    using assms(2) n by (simp add: filter_list_def elems_def q1 h1 take_Suc_update)
  have l2: "filter_list h2 q1 = take ?n ?arr @ [\<lparr>f_filter = s2, f_value = v2\<rparr>]"
    using assms(2) n by (simp add: filter_list_def elems_def q1 h1 h2 take_Suc_update)
  from l0 l1 l2 q1 q2 show ?thesis by simp
qed

text \<open>
  C4 (fails on the code). The query \<open>q\<close> of \<open>three_filters\<close> has three filters in an
  array of capacity four. After \<^verbatim>\<open>q1 := q.Filter("d =", 4)\<close> the filters of \<open>q1\<close> are those
  of \<open>q\<close> and \<^verbatim>\<open>("d =", 4)\<close>. After \<^verbatim>\<open>q2 := q.Filter("e =", 5)\<close> the filters of \<open>q1\<close> are
  those of \<open>q\<close> and \<^verbatim>\<open>("e =", 5)\<close>: both calls wrote the same cell, and \<open>q1\<close> and \<open>q2\<close> hold
  the same slice.
\<close>

theorem Query_Filter_overwrites_sibling:
  "(case three_filters of (q, h) \<Rightarrow>
      case Query_Filter q ''d ='' (Some (IntV 4)) h of (q1, h1) \<Rightarrow>
        case Query_Filter q ''e ='' (Some (IntV 5)) h1 of (q2, h2) \<Rightarrow>
          filter_list h1 q1 = filter_list h q @ [\<lparr>f_filter = ''d ='', f_value = Some (IntV 4)\<rparr>]
          \<and> filter_list h2 q1 = filter_list h q @ [\<lparr>f_filter = ''e ='', f_value = Some (IntV 5)\<rparr>]
          \<and> filter_list h2 q2 = filter_list h q @ [\<lparr>f_filter = ''e ='', f_value = Some (IntV 5)\<rparr>]
          \<and> q_filter q1 = q_filter q2)"
  by code_simp

end
